theory Spec2Isabelle
  imports Complex_Main "HOL-Library.AList"
begin

section \<open>Python strings\<close>

text \<open>
  A Python \<open>str\<close> is modelled as a \<open>string\<close>, a list of characters with code points
  below 256. \<open>lower\<close> is written out on ASCII (\<open>A\<close>..\<open>Z\<close> to \<open>a\<close>..\<open>z\<close>), \<open>strip\<close>
  removes the characters of \<open>str.isspace\<close> below 256, and the regular expression class
  \<open>\d\<close> is \<open>0\<close>..\<open>9\<close>, the only decimal digits below 256.
\<close>

fun startswith :: "string \<Rightarrow> string \<Rightarrow> bool" where
  "startswith s [] = True"
| "startswith [] (p # ps) = False"
| "startswith (c # cs) (p # ps) = (c = p \<and> startswith cs ps)"

text \<open>\<open>needle in hay\<close> on strings: the needle occurs as a contiguous piece.\<close>

fun str_contains :: "string \<Rightarrow> string \<Rightarrow> bool" where
  "str_contains n [] = (n = [])"
| "str_contains n (c # cs) = (startswith (c # cs) n \<or> str_contains n cs)"

definition lower_char :: "char \<Rightarrow> char" where
  "lower_char c =
     (case map_of (zip ''ABCDEFGHIJKLMNOPQRSTUVWXYZ'' ''abcdefghijklmnopqrstuvwxyz'') c of
        Some l \<Rightarrow> l
      | None \<Rightarrow> c)"

definition py_lower :: "string \<Rightarrow> string" where
  "py_lower s = map lower_char s"

section \<open>Selector auto-detection (utils/test_helpers.py)\<close>

datatype by_type = By_ID | By_CLASS_NAME | By_XPATH | By_CSS_SELECTOR | By_NAME

text \<open>
  \<^verbatim>\<open>
  def auto_detect_selector_type(selector_string):
      if selector_string.startswith('#'):
          return By.ID, selector_string[1:]
      elif selector_string.startswith('.'):
          return By.CLASS_NAME, selector_string[1:]
      elif selector_string.startswith('//'):
          return By.XPATH, selector_string
      elif '[' in selector_string and ']' in selector_string:
          return By.CSS_SELECTOR, selector_string
      elif selector_string.startswith('name='):
          return By.NAME, selector_string[5:]
      else:
          return By.CSS_SELECTOR, selector_string
  \<close>
\<close>

definition auto_detect_selector_type :: "string \<Rightarrow> by_type \<times> string" where
  "auto_detect_selector_type selector_string =
     (if startswith selector_string ''#'' then (By_ID, drop 1 selector_string)
      else if startswith selector_string ''.'' then (By_CLASS_NAME, drop 1 selector_string)
      else if startswith selector_string ''//'' then (By_XPATH, selector_string)
      else if CHR ''['' \<in> set selector_string \<and> CHR '']'' \<in> set selector_string
        then (By_CSS_SELECTOR, selector_string)
      else if startswith selector_string ''name='' then (By_NAME, drop 5 selector_string)
      else (By_CSS_SELECTOR, selector_string))"

section \<open>Browser options and the headless validator (utils/browser_config.py)\<close>

datatype error =
    ValueError string
  | TypeError
  | WebDriverException
  | EOFError
  | KeyboardInterrupt
  | OSError

text \<open>
  \<open>ChromeOptions\<close>: the argument list in the order of the \<open>add_argument\<close> calls, and the
  experimental options by name.
\<close>

datatype optval =
    OBool bool
  | OStrs "string list"
  | OPrefs "(string \<times> int) list"

record chrome_options =
  arguments :: "string list"
  experimental_options :: "(string \<times> optval) list"

definition add_argument :: "string \<Rightarrow> chrome_options \<Rightarrow> chrome_options" where
  "add_argument a opts = opts\<lparr>arguments := arguments opts @ [a]\<rparr>"

definition add_experimental_option :: "string \<Rightarrow> optval \<Rightarrow> chrome_options \<Rightarrow> chrome_options" where
  "add_experimental_option k v opts =
     opts\<lparr>experimental_options := AList.update k v (experimental_options opts)\<rparr>"

definition ChromeOptions :: chrome_options where
  "ChromeOptions = \<lparr>arguments = [], experimental_options = []\<rparr>"

definition get_visible_chrome_options :: chrome_options where
  "get_visible_chrome_options =
     (add_experimental_option ''prefs'' (OPrefs
          [(''profile.default_content_setting_values.notifications'', 2),
           (''profile.default_content_settings.popups'', 0),
           (''profile.managed_default_content_settings.images'', 1),
           (''profile.default_content_settings.multiple-automatic-downloads'', 1)])
      \<circ> add_argument ''--disable-default-apps''
      \<circ> add_argument ''--disable-popup-blocking''
      \<circ> add_argument ''--disable-notifications''
      \<circ> add_experimental_option ''useAutomationExtension'' (OBool False)
      \<circ> add_experimental_option ''excludeSwitches'' (OStrs [''enable-automation''])
      \<circ> add_argument ''--disable-blink-features=AutomationControlled''
      \<circ> add_argument ''--disable-extensions''
      \<circ> add_argument ''--disable-dev-shm-usage''
      \<circ> add_argument ''--no-sandbox''
      \<circ> add_argument ''--disable-renderer-backgrounding''
      \<circ> add_argument ''--disable-backgrounding-occluded-windows''
      \<circ> add_argument ''--disable-background-timer-throttling''
      \<circ> add_argument ''--disable-background-mode''
      \<circ> add_argument ''--force-device-scale-factor=1''
      \<circ> add_argument ''--start-maximized'') ChromeOptions"

definition headless_message :: string where
  "headless_message = ''HEADLESS MODE DETECTED! All tests must run with visible browser window''"

text \<open>
  \<^verbatim>\<open>
  def validate_no_headless_mode(chrome_options):
      args = chrome_options.arguments
      for arg in args:
          if '--headless' in arg.lower():
              raise ValueError("HEADLESS MODE DETECTED! ...")
      print("No headless mode detected - browser will be visible")
      return True
  \<close>
  The loop raises at the first argument that holds the flag.
\<close>

fun scan_headless :: "string list \<Rightarrow> error + bool" where
  "scan_headless [] = Inr True"
| "scan_headless (arg # args) =
     (if str_contains ''--headless'' (py_lower arg) then Inl (ValueError headless_message)
      else scan_headless args)"

definition validate_no_headless_mode :: "chrome_options \<Rightarrow> error + bool" where
  "validate_no_headless_mode opts = scan_headless (arguments opts)"

section \<open>Python values\<close>

text \<open>
  The dictionaries that the validators and the reporter return are association lists in
  insertion order. A number is modelled by its exact value: Python's \<open>int\<close> and \<open>float\<close>
  both become \<open>PNum\<close>, and float rounding is left out.
\<close>

datatype pyval =
    PNone
  | PBool bool
  | PNum real
  | PStr string
  | PList "pyval list"
  | PDict "(string \<times> pyval) list"

definition dict_get :: "(string \<times> pyval) list \<Rightarrow> string \<Rightarrow> pyval option" where
  "dict_get d k = map_of d k"

definition dict_keys :: "(string \<times> pyval) list \<Rightarrow> string list" where
  "dict_keys d = map fst d"

text \<open>A key of a dictionary is missing, holds \<open>None\<close>, or holds a value.\<close>

datatype 'a field = Missing | PyNone | Val 'a

section \<open>Price-accuracy validators (tests/test_amazon_complete.py)\<close>

text \<open>
  A product record as \<open>extract_comprehensive_product_data\<close> builds it. The validators read the
  keys \<open>price\<close> and \<open>title\<close> only; the title is \<open>None\<close> when no title was found and the
  record was kept for its price.
\<close>

record product =
  title :: "string field"
  price :: "real field"

definition invalid_entry :: "string \<Rightarrow> real \<Rightarrow> real \<Rightarrow> pyval" where
  "invalid_entry t v expected_max_price =
     PDict [(''title'', PStr t), (''price'', PNum v), (''expected_max'', PNum expected_max_price)]"

text \<open>
  \<^verbatim>\<open>
  for product in products_data:
      if product.get("price"):
          if product["price"] <= max_allowed:
              valid_prices.append(product["price"])
          else:
              invalid_prices.append({
                  "title": product.get("title", "Unknown")[:50],
                  "price": product["price"],
                  "expected_max": expected_max_price
              })
  \<close>
  \<open>product.get("price")\<close> is falsy for a missing key, for \<open>None\<close> and for \<open>0\<close>.
  \<open>product.get("title", "Unknown")\<close> is \<open>None\<close> when the key holds \<open>None\<close>, and slicing
  \<open>None\<close> raises \<open>TypeError\<close>. Both validators run this loop.
\<close>

fun partition_prices ::
  "real \<Rightarrow> real \<Rightarrow> product list \<Rightarrow> real list \<Rightarrow> pyval list
     \<Rightarrow> error + (real list \<times> pyval list)" where
  "partition_prices expected_max_price max_allowed [] valid_prices invalid_prices =
     Inr (valid_prices, invalid_prices)"
| "partition_prices expected_max_price max_allowed (p # ps) valid_prices invalid_prices =
     (case price p of
        Val v \<Rightarrow>
          if v \<noteq> 0 then
            if v \<le> max_allowed
            then partition_prices expected_max_price max_allowed ps
                   (valid_prices @ [v]) invalid_prices
            else (case title p of
                    PyNone \<Rightarrow> Inl TypeError
                  | Missing \<Rightarrow>
                      partition_prices expected_max_price max_allowed ps valid_prices
                        (invalid_prices @ [invalid_entry (take 50 ''Unknown'') v expected_max_price])
                  | Val t \<Rightarrow>
                      partition_prices expected_max_price max_allowed ps valid_prices
                        (invalid_prices @ [invalid_entry (take 50 t) v expected_max_price]))
          else partition_prices expected_max_price max_allowed ps valid_prices invalid_prices
      | _ \<Rightarrow> partition_prices expected_max_price max_allowed ps valid_prices invalid_prices)"

definition accuracy_of :: "nat \<Rightarrow> nat \<Rightarrow> real" where
  "accuracy_of n_valid total_with_prices =
     (if total_with_prices > 0 then real n_valid / real total_with_prices * 100 else 0)"

text \<open>
  \<^verbatim>\<open>
  def validate_price_accuracy(self, products_data, expected_max_price, tolerance_percent=25):
      if not products_data:
          return {"accuracy": 0, "details": "No products to validate"}
      ...
      return {"accuracy": accuracy, "valid_count": ..., "invalid_count": ...,
              "total_products": ..., "products_with_prices": ...,
              "invalid_products": invalid_prices[:3], "passed": accuracy >= 70}
  \<close>
\<close>

definition validate_price_accuracy ::
  "product list \<Rightarrow> real \<Rightarrow> real \<Rightarrow> error + (string \<times> pyval) list" where
  "validate_price_accuracy products_data expected_max_price tolerance_percent =
     (if products_data = [] then
        Inr [(''accuracy'', PNum 0), (''details'', PStr ''No products to validate'')]
      else
        let tolerance_amount = expected_max_price * (tolerance_percent / 100);
            max_allowed = expected_max_price + tolerance_amount
        in case partition_prices expected_max_price max_allowed products_data [] [] of
             Inl e \<Rightarrow> Inl e
           | Inr (valid_prices, invalid_prices) \<Rightarrow>
               let total_with_prices = length valid_prices + length invalid_prices;
                   accuracy = accuracy_of (length valid_prices) total_with_prices
               in Inr [(''accuracy'', PNum accuracy),
                       (''valid_count'', PNum (real (length valid_prices))),
                       (''invalid_count'', PNum (real (length invalid_prices))),
                       (''total_products'', PNum (real (length products_data))),
                       (''products_with_prices'', PNum (real total_with_prices)),
                       (''invalid_products'', PList (take 3 invalid_prices)),
                       (''passed'', PBool (accuracy \<ge> 70))])"

text \<open>
  \<^verbatim>\<open>
  def validate_price_accuracy_enhanced(self, products_data, expected_max_price,
                                       tolerance_percent=30):
      if not products_data:
          return {"accuracy": 0, "details": "No products to validate", "passed": False}
      ...
      passed = accuracy >= 40 or len(valid_prices) >= 2
      return {..., "passed": passed}
  \<close>
\<close>

definition validate_price_accuracy_enhanced ::
  "product list \<Rightarrow> real \<Rightarrow> real \<Rightarrow> error + (string \<times> pyval) list" where
  "validate_price_accuracy_enhanced products_data expected_max_price tolerance_percent =
     (if products_data = [] then
        Inr [(''accuracy'', PNum 0), (''details'', PStr ''No products to validate''),
             (''passed'', PBool False)]
      else
        let tolerance_amount = expected_max_price * (tolerance_percent / 100);
            max_allowed = expected_max_price + tolerance_amount
        in case partition_prices expected_max_price max_allowed products_data [] [] of
             Inl e \<Rightarrow> Inl e
           | Inr (valid_prices, invalid_prices) \<Rightarrow>
               let total_with_prices = length valid_prices + length invalid_prices;
                   accuracy = accuracy_of (length valid_prices) total_with_prices;
                   passed = (accuracy \<ge> 40 \<or> length valid_prices \<ge> 2)
               in Inr [(''accuracy'', PNum accuracy),
                       (''valid_count'', PNum (real (length valid_prices))),
                       (''invalid_count'', PNum (real (length invalid_prices))),
                       (''total_products'', PNum (real (length products_data))),
                       (''products_with_prices'', PNum (real total_with_prices)),
                       (''invalid_products'', PList (take 3 invalid_prices)),
                       (''passed'', PBool passed)])"

text \<open>The default tolerances of the two signatures.\<close>

definition tolerance_percent_default :: real where
  "tolerance_percent_default = 25"

definition tolerance_percent_default_enhanced :: real where
  "tolerance_percent_default_enhanced = 30"

text \<open>The priced products of a list, split by the ceiling, as the claims describe them.\<close>

definition priced :: "product \<Rightarrow> real option" where
  "priced p = (case price p of Val v \<Rightarrow> if v \<noteq> 0 then Some v else None | _ \<Rightarrow> None)"

definition valid_prices_of :: "real \<Rightarrow> product list \<Rightarrow> real list" where
  "valid_prices_of max_allowed ps = filter (\<lambda>v. v \<le> max_allowed) (List.map_filter priced ps)"

definition invalid_prices_of :: "real \<Rightarrow> product list \<Rightarrow> real list" where
  "invalid_prices_of max_allowed ps = filter (\<lambda>v. \<not> v \<le> max_allowed) (List.map_filter priced ps)"

text \<open>The products on which the loop raises: priced above the ceiling, with a \<open>None\<close> title.\<close>

definition untitled_over :: "real \<Rightarrow> product \<Rightarrow> bool" where
  "untitled_over max_allowed p =
     (case priced p of Some v \<Rightarrow> \<not> v \<le> max_allowed \<and> title p = PyNone | None \<Rightarrow> False)"

section \<open>Facts about the string functions\<close>

lemma startswith_iff: "startswith s p \<longleftrightarrow> (\<exists>r. s = p @ r)"
  by (induction s p rule: startswith.induct) auto

lemma str_contains_iff: "str_contains n h \<longleftrightarrow> (\<exists>p s. h = p @ n @ s)"
proof (induction h)
  case Nil
  then show ?case by auto
next
  case (Cons c cs)
  show ?case
  proof
    assume "str_contains n (c # cs)"
    then consider "startswith (c # cs) n" | "str_contains n cs" by auto
    then show "\<exists>p s. c # cs = p @ n @ s"
    proof cases
      case 1
      then obtain r where "c # cs = n @ r" by (auto simp: startswith_iff)
      then have "c # cs = [] @ n @ r" by simp
      then show ?thesis by blast
    next
      case 2
      then obtain p s where "cs = p @ n @ s" using Cons.IH by auto
      then have "c # cs = (c # p) @ n @ s" by simp
      then show ?thesis by blast
    qed
  next
    assume "\<exists>p s. c # cs = p @ n @ s"
    then obtain p s where ps: "c # cs = p @ n @ s" by auto
    show "str_contains n (c # cs)"
    proof (cases p)
      case Nil
      then have "startswith (c # cs) n" unfolding startswith_iff using ps by auto
      then show ?thesis by simp
    next
      case (Cons a p')
      then have "cs = p' @ n @ s" using ps by simp
      then show ?thesis using Cons.IH by auto
    qed
  qed
qed

lemma scan_headless_raises:
  "scan_headless args = Inl (ValueError headless_message)
     \<longleftrightarrow> (\<exists>arg \<in> set args. str_contains ''--headless'' (py_lower arg))"
  by (induction args) auto

lemma scan_headless_returns:
  "scan_headless args = Inr True
     \<longleftrightarrow> \<not> (\<exists>arg \<in> set args. str_contains ''--headless'' (py_lower arg))"
  by (induction args) auto

lemma lower_table:
  "map_of (zip ''ABCDEFGHIJKLMNOPQRSTUVWXYZ'' ''abcdefghijklmnopqrstuvwxyz'') c =
    (if c = CHR ''A'' then Some CHR ''a'' else if c = CHR ''B'' then Some CHR ''b''
     else if c = CHR ''C'' then Some CHR ''c'' else if c = CHR ''D'' then Some CHR ''d''
     else if c = CHR ''E'' then Some CHR ''e'' else if c = CHR ''F'' then Some CHR ''f''
     else if c = CHR ''G'' then Some CHR ''g'' else if c = CHR ''H'' then Some CHR ''h''
     else if c = CHR ''I'' then Some CHR ''i'' else if c = CHR ''J'' then Some CHR ''j''
     else if c = CHR ''K'' then Some CHR ''k'' else if c = CHR ''L'' then Some CHR ''l''
     else if c = CHR ''M'' then Some CHR ''m'' else if c = CHR ''N'' then Some CHR ''n''
     else if c = CHR ''O'' then Some CHR ''o'' else if c = CHR ''P'' then Some CHR ''p''
     else if c = CHR ''Q'' then Some CHR ''q'' else if c = CHR ''R'' then Some CHR ''r''
     else if c = CHR ''S'' then Some CHR ''s'' else if c = CHR ''T'' then Some CHR ''t''
     else if c = CHR ''U'' then Some CHR ''u'' else if c = CHR ''V'' then Some CHR ''v''
     else if c = CHR ''W'' then Some CHR ''w'' else if c = CHR ''X'' then Some CHR ''x''
     else if c = CHR ''Y'' then Some CHR ''y'' else if c = CHR ''Z'' then Some CHR ''z''
     else None)"
  by simp

lemma lower_char_keeps:
  "c \<notin> set ''ABCDEFGHIJKLMNOPQRSTUVWXYZ'' \<Longrightarrow> lower_char c = c"
  unfolding lower_char_def lower_table by simp

lemma get_visible_chrome_options_arguments:
  "arguments get_visible_chrome_options =
     [''--start-maximized'', ''--force-device-scale-factor=1'', ''--disable-background-mode'',
      ''--disable-background-timer-throttling'', ''--disable-backgrounding-occluded-windows'',
      ''--disable-renderer-backgrounding'', ''--no-sandbox'', ''--disable-dev-shm-usage'',
      ''--disable-extensions'', ''--disable-blink-features=AutomationControlled'',
      ''--disable-notifications'', ''--disable-popup-blocking'', ''--disable-default-apps'']"
  by (simp add: get_visible_chrome_options_def add_argument_def add_experimental_option_def
      ChromeOptions_def)

lemma builder_passes_validator:
  "validate_no_headless_mode get_visible_chrome_options = Inr True"
  by (simp add: validate_no_headless_mode_def get_visible_chrome_options_arguments
      py_lower_def lower_char_keeps)

section \<open>Claims on the selector detection and the headless validator\<close>

text \<open>
  C9 (as the claim states it, refuted): a string that starts with \<open>name=\<close> and holds both
  brackets is not resolved to a name-attribute locator; the bracket test stands before the
  \<open>name=\<close> test, so the string comes back as a generic CSS locator.
\<close>

theorem name_prefix_with_brackets_is_css:
  "startswith ''name=user[email]'' ''name=''
   \<and> auto_detect_selector_type ''name=user[email]'' = (By_CSS_SELECTOR, ''name=user[email]'')"
  by (simp add: auto_detect_selector_type_def)

text \<open>
  C9 (amended): the detection is an ordered chain. A leading \<open>#\<close> gives an ID locator and a
  leading \<open>.\<close> a class-name locator, each without its first character; a leading \<open>//\<close>
  gives an XPath locator with the string unchanged; otherwise a string that holds both
  \<open>[\<close> and \<open>]\<close> gives a CSS locator; otherwise a \<open>name=\<close> prefix gives a name locator
  carrying the rest of the string; every other string gives a CSS locator. So a string
  starting with \<open>name=\<close> resolves to a name locator exactly when it does not hold both
  brackets.
\<close>

theorem auto_detect_selector_type_chain:
  "auto_detect_selector_type (CHR ''#'' # r) = (By_ID, r)
   \<and> auto_detect_selector_type (CHR ''.'' # r) = (By_CLASS_NAME, r)
   \<and> auto_detect_selector_type (''//'' @ r) = (By_XPATH, ''//'' @ r)
   \<and> (auto_detect_selector_type (''name='' @ r) = (By_NAME, r)
        \<longleftrightarrow> \<not> (CHR ''['' \<in> set r \<and> CHR '']'' \<in> set r))
   \<and> (CHR ''['' \<in> set r \<and> CHR '']'' \<in> set r
        \<longrightarrow> auto_detect_selector_type (''name='' @ r) = (By_CSS_SELECTOR, ''name='' @ r))
   \<and> (\<not> startswith s ''#'' \<and> \<not> startswith s ''.'' \<and> \<not> startswith s ''//''
        \<and> \<not> startswith s ''name=''
        \<longrightarrow> auto_detect_selector_type s = (By_CSS_SELECTOR, s))
   \<and> (\<not> startswith s ''#'' \<and> \<not> startswith s ''.'' \<and> \<not> startswith s ''//''
        \<and> CHR ''['' \<in> set s \<and> CHR '']'' \<in> set s
        \<longrightarrow> auto_detect_selector_type s = (By_CSS_SELECTOR, s))"
  by (auto simp: auto_detect_selector_type_def)

theorem auto_detect_selector_type_chain_witness:
  "auto_detect_selector_type ''#nav-search'' = (By_ID, ''nav-search'')
   \<and> auto_detect_selector_type ''.a-price-whole'' = (By_CLASS_NAME, ''a-price-whole'')
   \<and> auto_detect_selector_type ''//div[@id]'' = (By_XPATH, ''//div[@id]'')
   \<and> auto_detect_selector_type ''name=field-keywords'' = (By_NAME, ''field-keywords'')
   \<and> auto_detect_selector_type ''name=q[0]'' = (By_CSS_SELECTOR, ''name=q[0]'')
   \<and> auto_detect_selector_type ''h2 a span'' = (By_CSS_SELECTOR, ''h2 a span'')
   \<and> auto_detect_selector_type ''input[type=text]'' = (By_CSS_SELECTOR, ''input[type=text]'')"
  using auto_detect_selector_type_chain [of "''nav-search''" "''h2 a span''"]
    auto_detect_selector_type_chain [of "''a-price-whole''" "''input[type=text]''"]
    auto_detect_selector_type_chain [of "''div[@id]''" "''h2 a span''"]
    auto_detect_selector_type_chain [of "''field-keywords''" "''h2 a span''"]
    auto_detect_selector_type_chain [of "''q[0]''" "''h2 a span''"]
  by simp

text \<open>
  C5: the option set built by \<open>get_visible_chrome_options\<close> passes the headless validator;
  and for every option set the validator raises its \<open>ValueError\<close> exactly when some
  argument, lower-cased, contains \<open>--headless\<close>, and returns \<open>True\<close> exactly when none
  does.
\<close>

theorem validate_no_headless_mode_iff:
  "validate_no_headless_mode get_visible_chrome_options = Inr True
   \<and> (validate_no_headless_mode opts = Inl (ValueError headless_message)
        \<longleftrightarrow> (\<exists>arg \<in> set (arguments opts). \<exists>p s. py_lower arg = p @ ''--headless'' @ s))
   \<and> (validate_no_headless_mode opts = Inr True
        \<longleftrightarrow> \<not> (\<exists>arg \<in> set (arguments opts). \<exists>p s. py_lower arg = p @ ''--headless'' @ s))"
proof -
  have raises: "validate_no_headless_mode opts = Inl (ValueError headless_message)
        \<longleftrightarrow> (\<exists>arg \<in> set (arguments opts). \<exists>p s. py_lower arg = p @ ''--headless'' @ s)"
    unfolding validate_no_headless_mode_def scan_headless_raises str_contains_iff ..
  have returns: "validate_no_headless_mode opts = Inr True
        \<longleftrightarrow> \<not> (\<exists>arg \<in> set (arguments opts). \<exists>p s. py_lower arg = p @ ''--headless'' @ s)"
    unfolding validate_no_headless_mode_def scan_headless_returns str_contains_iff ..
  show ?thesis using builder_passes_validator raises returns by blast
qed

theorem validate_no_headless_mode_iff_witness:
  "validate_no_headless_mode
     \<lparr>arguments = [''--start-maximized'', ''--HeadLess=new''], experimental_options = []\<rparr>
   = Inl (ValueError headless_message)"
proof -
  have "py_lower ''--HeadLess=new'' = [] @ ''--headless'' @ ''=new''"
    by (simp add: py_lower_def lower_char_def lower_table)
  then have "\<exists>arg \<in> set [''--start-maximized'', ''--HeadLess=new''].
      \<exists>p s. py_lower arg = p @ ''--headless'' @ s"
    by (metis list.set_intros(1) list.set_intros(2))
  then show ?thesis
    using validate_no_headless_mode_iff
      [of "\<lparr>arguments = [''--start-maximized'', ''--HeadLess=new''], experimental_options = []\<rparr>"]
    by simp
qed

section \<open>Facts about the price-accuracy validators\<close>

lemma partition_prices_acc:
  "partition_prices e m ps va ia = Inr (v, i) \<Longrightarrow>
     v = va @ valid_prices_of m ps \<and> length i = length ia + length (invalid_prices_of m ps)"
proof (induction ps arbitrary: va ia)
  case Nil
  then show ?case
    by (simp add: valid_prices_of_def invalid_prices_of_def List.map_filter_simps)
next
  case (Cons p ps)
  from Cons.prems show ?case
    by (auto simp: valid_prices_of_def invalid_prices_of_def List.map_filter_simps priced_def
        split: field.splits if_splits dest!: Cons.IH)
qed

lemma partition_prices_returns:
  "\<not> (\<exists>p \<in> set ps. untitled_over m p) \<Longrightarrow> \<exists>v i. partition_prices e m ps va ia = Inr (v, i)"
  by (induction ps arbitrary: va ia)
     (auto simp: untitled_over_def priced_def split: field.splits if_splits)

lemma partition_prices_raises:
  "partition_prices e m ps va ia = Inl err
     \<longleftrightarrow> err = TypeError \<and> (\<exists>p \<in> set ps. untitled_over m p)"
  by (induction ps arbitrary: va ia)
     (auto simp: untitled_over_def priced_def split: field.splits if_splits)

text \<open>
  Where no priced product above the ceiling has a \<open>None\<close> title, the enhanced validator
  returns, and its result holds the counts of the partition, the accuracy
  \<open>valid / (valid + invalid) \<times> 100\<close> and \<open>passed = (accuracy \<ge> 40 or valid \<ge> 2)\<close>.
\<close>

lemma validate_price_accuracy_enhanced_returns:
  assumes "products_data \<noteq> []"
    and "\<not> (\<exists>p \<in> set products_data. untitled_over (e + e * (t / 100)) p)"
  shows "\<exists>r. validate_price_accuracy_enhanced products_data e t = Inr r
     \<and> dict_get r ''valid_count''
         = Some (PNum (real (length (valid_prices_of (e + e * (t / 100)) products_data))))
     \<and> dict_get r ''invalid_count''
         = Some (PNum (real (length (invalid_prices_of (e + e * (t / 100)) products_data))))
     \<and> dict_get r ''accuracy''
         = Some (PNum (accuracy_of (length (valid_prices_of (e + e * (t / 100)) products_data))
              (length (valid_prices_of (e + e * (t / 100)) products_data)
               + length (invalid_prices_of (e + e * (t / 100)) products_data))))
     \<and> dict_get r ''passed''
         = Some (PBool
             (accuracy_of (length (valid_prices_of (e + e * (t / 100)) products_data))
                (length (valid_prices_of (e + e * (t / 100)) products_data)
                 + length (invalid_prices_of (e + e * (t / 100)) products_data)) \<ge> 40
              \<or> length (valid_prices_of (e + e * (t / 100)) products_data) \<ge> 2))"
proof -
  obtain v i where vi: "partition_prices e (e + e * (t / 100)) products_data [] [] = Inr (v, i)"
    using partition_prices_returns [OF assms(2)] by blast
  from partition_prices_acc [OF vi]
  have v: "v = valid_prices_of (e + e * (t / 100)) products_data"
    and i: "length i = length (invalid_prices_of (e + e * (t / 100)) products_data)"
    by simp_all
  show ?thesis
    using assms(1) vi by (simp add: validate_price_accuracy_enhanced_def dict_get_def Let_def v i)
qed

lemma validate_price_accuracy_enhanced_raises:
  "validate_price_accuracy_enhanced products_data e t = Inl err
     \<longleftrightarrow> err = TypeError \<and> (\<exists>p \<in> set products_data. untitled_over (e + e * (t / 100)) p)"
proof (cases "products_data = []")
  case True
  then show ?thesis by (simp add: validate_price_accuracy_enhanced_def)
next
  case False
  then show ?thesis
    using partition_prices_raises [of e "e + e * (t / 100)" products_data "[]" "[]" err]
    by (auto simp: validate_price_accuracy_enhanced_def Let_def split: sum.splits)
qed

text \<open>The two examples of the specification: ceiling 500, tolerance 30, allowed 650.\<close>

lemma enhanced_example_all_valid:
  "\<exists>r. validate_price_accuracy_enhanced
          [\<lparr>title = Val ''Novel one'', price = Val 400\<rparr>,
           \<lparr>title = PyNone, price = Val 450\<rparr>,
           \<lparr>title = Val ''Novel three'', price = Val 600\<rparr>] 500 tolerance_percent_default_enhanced
        = Inr r
     \<and> dict_get r ''accuracy'' = Some (PNum 100) \<and> dict_get r ''passed'' = Some (PBool True)"
  by (simp add: validate_price_accuracy_enhanced_def tolerance_percent_default_enhanced_def
      accuracy_of_def dict_get_def)

lemma enhanced_example_half_valid:
  "\<exists>r. validate_price_accuracy_enhanced
          [\<lparr>title = Val ''Novel one'', price = Val 400\<rparr>,
           \<lparr>title = Val ''Novel two'', price = Val 1000\<rparr>] 500 tolerance_percent_default_enhanced
        = Inr r
     \<and> dict_get r ''valid_count'' = Some (PNum 1) \<and> dict_get r ''invalid_count'' = Some (PNum 1)
     \<and> dict_get r ''accuracy'' = Some (PNum 50) \<and> dict_get r ''passed'' = Some (PBool True)"
  by (simp add: validate_price_accuracy_enhanced_def tolerance_percent_default_enhanced_def
      accuracy_of_def dict_get_def invalid_entry_def)

text \<open>The strict validator: the shape of its result.\<close>

lemma validate_price_accuracy_empty:
  "validate_price_accuracy [] e t
     = Inr [(''accuracy'', PNum 0), (''details'', PStr ''No products to validate'')]
   \<and> validate_price_accuracy_enhanced [] e t
     = Inr [(''accuracy'', PNum 0), (''details'', PStr ''No products to validate''),
            (''passed'', PBool False)]"
  by (simp add: validate_price_accuracy_def validate_price_accuracy_enhanced_def)

lemma validate_price_accuracy_returns:
  assumes "products_data \<noteq> []"
    and "\<not> (\<exists>p \<in> set products_data. untitled_over (e + e * (t / 100)) p)"
  shows "\<exists>r. validate_price_accuracy products_data e t = Inr r
     \<and> dict_get r ''passed''
         = Some (PBool
             (accuracy_of (length (valid_prices_of (e + e * (t / 100)) products_data))
                (length (valid_prices_of (e + e * (t / 100)) products_data)
                 + length (invalid_prices_of (e + e * (t / 100)) products_data)) \<ge> 70))"
proof -
  obtain v i where vi: "partition_prices e (e + e * (t / 100)) products_data [] [] = Inr (v, i)"
    using partition_prices_returns [OF assms(2)] by blast
  from partition_prices_acc [OF vi]
  have v: "v = valid_prices_of (e + e * (t / 100)) products_data"
    and i: "length i = length (invalid_prices_of (e + e * (t / 100)) products_data)"
    by simp_all
  show ?thesis
    using assms(1) vi by (simp add: validate_price_accuracy_def dict_get_def Let_def v i)
qed

lemma validate_price_accuracy_raises:
  "validate_price_accuracy products_data e t = Inl err
     \<longleftrightarrow> err = TypeError \<and> (\<exists>p \<in> set products_data. untitled_over (e + e * (t / 100)) p)"
proof (cases "products_data = []")
  case True
  then show ?thesis by (simp add: validate_price_accuracy_def)
next
  case False
  then show ?thesis
    using partition_prices_raises [of e "e + e * (t / 100)" products_data "[]" "[]" err]
    by (auto simp: validate_price_accuracy_def Let_def split: sum.splits)
qed

section \<open>Claims on the price-accuracy validators\<close>

text \<open>
  C3 (the code departs from the claim): the claim gives a result for every non-empty product
  list. A product that was kept for its price has the title \<open>None\<close>; when its price lies
  above the allowed ceiling the enhanced validator slices that title and raises
  \<open>TypeError\<close>, so it returns no accuracy and no \<open>passed\<close> value. Here: one product, price
  1000, no title, expected maximum 500, tolerance 30.
\<close>

theorem validate_price_accuracy_enhanced_untitled:
  "validate_price_accuracy_enhanced [\<lparr>title = PyNone, price = Val 1000\<rparr>] 500
     tolerance_percent_default_enhanced = Inl TypeError"
  by (simp add: validate_price_accuracy_enhanced_def tolerance_percent_default_enhanced_def)

text \<open>
  C10 (the code departs from the claim): for the empty list the strict validator returns
  the keys \<open>accuracy\<close> and \<open>details\<close> only and the enhanced one adds \<open>passed = False\<close>, as the
  claim says (\<open>validate_price_accuracy_empty\<close>); but the strict validator does not return a
  \<open>passed\<close> value for every non-empty list: on a product without a title priced above the
  ceiling it raises \<open>TypeError\<close> in the same way as the enhanced one. Here: one product,
  price 1000, no title, expected maximum 500, tolerance 25.
\<close>

theorem validate_price_accuracy_untitled:
  "validate_price_accuracy [\<lparr>title = PyNone, price = Val 1000\<rparr>] 500
     tolerance_percent_default = Inl TypeError"
  by (simp add: validate_price_accuracy_def tolerance_percent_default_def)

section \<open>The enhanced reporter (utils/enhanced_reporting.py)\<close>

text \<open>
  A \<open>datetime\<close> is its distance from the epoch in microseconds together with the text
  \<open>isoformat()\<close> gives for it; \<open>datetime.now()\<close> is an argument of the operations that
  call it, and \<open>os.path.exists\<close> is the predicate \<open>exists\<close> on paths at the time of the
  call.
\<close>

record datetime =
  dt_micros :: int
  dt_iso :: string

definition total_seconds :: "datetime \<Rightarrow> datetime \<Rightarrow> real" where
  "total_seconds e s = real_of_int (dt_micros e - dt_micros s) / 1000000"

record test_result =
  test_name :: string
  status :: string
  duration :: real
  tr_timestamp :: string
  error_message :: "string option"
  screenshot_path :: "string option"

record performance_metric =
  pm_value :: real
  pm_unit :: string
  pm_timestamp :: string

record screenshot_record =
  path :: string
  description :: string
  ss_timestamp :: string

record EnhancedReporter =
  test_results :: "test_result list"
  performance_metrics :: "(string \<times> performance_metric) list"
  screenshots :: "screenshot_record list"
  start_time :: "datetime option"
  end_time :: "datetime option"

definition EnhancedReporter_init :: EnhancedReporter where
  "EnhancedReporter_init =
     \<lparr>test_results = [], performance_metrics = [], screenshots = [],
      start_time = None, end_time = None\<rparr>"

definition start_session :: "datetime \<Rightarrow> EnhancedReporter \<Rightarrow> EnhancedReporter" where
  "start_session now r = r\<lparr>start_time := Some now\<rparr>"

definition end_session :: "datetime \<Rightarrow> EnhancedReporter \<Rightarrow> EnhancedReporter" where
  "end_session now r = r\<lparr>end_time := Some now\<rparr>"

text \<open>\<open>"duration": duration or 0\<close>: a missing duration is stored as 0.\<close>

definition add_test_result ::
  "datetime \<Rightarrow> string \<Rightarrow> string \<Rightarrow> real option \<Rightarrow> string option \<Rightarrow> string option
     \<Rightarrow> EnhancedReporter \<Rightarrow> EnhancedReporter" where
  "add_test_result now name st dur err shot r =
     r\<lparr>test_results := test_results r @
         [\<lparr>test_name = name, status = st,
           duration = (case dur of None \<Rightarrow> 0 | Some d \<Rightarrow> d),
           tr_timestamp = dt_iso now, error_message = err, screenshot_path = shot\<rparr>]\<rparr>"

definition add_performance_metric ::
  "datetime \<Rightarrow> string \<Rightarrow> real \<Rightarrow> string \<Rightarrow> EnhancedReporter \<Rightarrow> EnhancedReporter" where
  "add_performance_metric now metric_name v u r =
     r\<lparr>performance_metrics := AList.update metric_name
         \<lparr>pm_value = v, pm_unit = u, pm_timestamp = dt_iso now\<rparr> (performance_metrics r)\<rparr>"

text \<open>
  \<^verbatim>\<open>
  def add_screenshot(self, path, description=""):
      if os.path.exists(path):
          self.screenshots.append({"path": path, "description": description,
                                   "timestamp": datetime.now().isoformat()})
  \<close>
\<close>

definition add_screenshot ::
  "(string \<Rightarrow> bool) \<Rightarrow> datetime \<Rightarrow> string \<Rightarrow> string \<Rightarrow> EnhancedReporter \<Rightarrow> EnhancedReporter" where
  "add_screenshot exists now p d r =
     (if exists p
      then r\<lparr>screenshots := screenshots r @
                [\<lparr>path = p, description = d, ss_timestamp = dt_iso now\<rparr>]\<rparr>
      else r)"

text \<open>\<open>sum(1 for r in self.test_results if r["status"] == s)\<close>\<close>

definition count_status :: "string \<Rightarrow> test_result list \<Rightarrow> nat" where
  "count_status s results = sum_list (map (\<lambda>r. 1) (filter (\<lambda>r. status r = s) results))"

definition session_duration_of :: "EnhancedReporter \<Rightarrow> real" where
  "session_duration_of r =
     (case (start_time r, end_time r) of
        (Some s, Some e) \<Rightarrow> total_seconds e s
      | _ \<Rightarrow> 0)"

text \<open>
  The summary statistics that \<open>generate_enhanced_html_report\<close> computes before it renders
  the page (lines 66 to 76 of the source).
\<close>

record html_summary =
  total_tests :: nat
  passed_tests :: nat
  failed_tests :: nat
  skipped_tests :: nat
  success_rate :: real
  total_duration :: real
  session_duration :: real

definition html_summary_of :: "EnhancedReporter \<Rightarrow> html_summary" where
  "html_summary_of r =
     (let total = length (test_results r);
          passed = count_status ''passed'' (test_results r);
          failed = count_status ''failed'' (test_results r);
          skipped = count_status ''skipped'' (test_results r)
      in \<lparr>total_tests = total, passed_tests = passed, failed_tests = failed,
           skipped_tests = skipped,
           success_rate = (if total > 0 then real passed / real total * 100 else 0),
           total_duration = sum_list (map duration (test_results r)),
           session_duration = session_duration_of r\<rparr>)"

text \<open>
  The screenshot gallery of the HTML report:
  \<^verbatim>\<open>
  if self.screenshots:
      html_content += """ ... <div class="screenshot-grid"> """
      for screenshot in self.screenshots:
          if os.path.exists(screenshot["path"]):
              html_content += f""" <div class="screenshot-item"> <img src="{path}" ...> ... """
      html_content += "</div>"
  \<close>
  \<open>gallery_entries\<close> are the records for which the loop emits an item.
\<close>

fun gallery_entries :: "(string \<Rightarrow> bool) \<Rightarrow> screenshot_record list \<Rightarrow> screenshot_record list" where
  "gallery_entries exists [] = []"
| "gallery_entries exists (s # ss) =
     (if exists (path s) then s # gallery_entries exists ss else gallery_entries exists ss)"

definition screenshot_item_html :: "screenshot_record \<Rightarrow> string" where
  "screenshot_item_html s =
     ''<div class=\"screenshot-item\"><img src=\"'' @ path s
       @ ''\" alt=\"Screenshot\" onclick=\"window.open('' @ [CHR 0x27] @ path s @ [CHR 0x27]
       @ '', '' @ [CHR 0x27] @ ''_blank'' @ [CHR 0x27] @ '')\">''
       @ ''<div class=\"screenshot-description\"><strong>''
       @ (if description s \<noteq> [] then description s else ''Test Screenshot'')
       @ ''</strong><small>'' @ ss_timestamp s @ ''</small></div></div>''"

definition gallery_html :: "(string \<Rightarrow> bool) \<Rightarrow> EnhancedReporter \<Rightarrow> string" where
  "gallery_html exists r =
     (if screenshots r \<noteq> []
      then ''</div><!-- Screenshots --><div class=\"section screenshots\"><h2>Screenshots</h2>''
           @ ''<div class=\"screenshot-grid\">''
           @ concat (map screenshot_item_html (gallery_entries exists (screenshots r)))
           @ ''</div>''
      else [])"

text \<open>The document that \<open>generate_json_report\<close> serialises.\<close>

definition opt_str :: "string option \<Rightarrow> pyval" where
  "opt_str s = (case s of None \<Rightarrow> PNone | Some t \<Rightarrow> PStr t)"

definition test_result_dict :: "test_result \<Rightarrow> pyval" where
  "test_result_dict t =
     PDict [(''test_name'', PStr (test_name t)), (''status'', PStr (status t)),
            (''duration'', PNum (duration t)), (''timestamp'', PStr (tr_timestamp t)),
            (''error_message'', opt_str (error_message t)),
            (''screenshot_path'', opt_str (screenshot_path t))]"

definition performance_metric_dict :: "performance_metric \<Rightarrow> pyval" where
  "performance_metric_dict m =
     PDict [(''value'', PNum (pm_value m)), (''unit'', PStr (pm_unit m)),
            (''timestamp'', PStr (pm_timestamp m))]"

definition screenshot_dict :: "screenshot_record \<Rightarrow> pyval" where
  "screenshot_dict s =
     PDict [(''path'', PStr (path s)), (''description'', PStr (description s)),
            (''timestamp'', PStr (ss_timestamp s))]"

definition json_session :: "EnhancedReporter \<Rightarrow> (string \<times> pyval) list" where
  "json_session r =
     [(''start_time'', opt_str (map_option dt_iso (start_time r))),
      (''end_time'', opt_str (map_option dt_iso (end_time r))),
      (''duration'', PNum (session_duration_of r))]"

definition json_summary :: "EnhancedReporter \<Rightarrow> (string \<times> pyval) list" where
  "json_summary r =
     [(''total_tests'', PNum (real (length (test_results r)))),
      (''passed'', PNum (real (count_status ''passed'' (test_results r)))),
      (''failed'', PNum (real (count_status ''failed'' (test_results r)))),
      (''skipped'', PNum (real (count_status ''skipped'' (test_results r)))),
      (''success_rate'',
         PNum (if test_results r \<noteq> []
               then real (count_status ''passed'' (test_results r))
                      / real (length (test_results r)) * 100
               else 0))]"

definition generate_json_report :: "EnhancedReporter \<Rightarrow> pyval" where
  "generate_json_report r =
     PDict [(''session'', PDict (json_session r)),
            (''summary'', PDict (json_summary r)),
            (''test_results'', PList (map test_result_dict (test_results r))),
            (''performance_metrics'',
               PDict (map (\<lambda>(k, m). (k, performance_metric_dict m)) (performance_metrics r))),
            (''screenshots'', PList (map screenshot_dict (screenshots r)))]"

text \<open>Every number that occurs anywhere in a value.\<close>

fun pynums :: "pyval \<Rightarrow> real list" where
  "pynums (PNum x) = [x]"
| "pynums (PList vs) = concat (map pynums vs)"
| "pynums (PDict kvs) = concat (map (\<lambda>kv. pynums (snd kv)) kvs)"
| "pynums v = []"

text \<open>A session with two passed tests that took 2 and 3 seconds.\<close>

definition two_passed_session :: EnhancedReporter where
  "two_passed_session =
     (add_test_result \<lparr>dt_micros = 9000000, dt_iso = ''2024-01-01T00:00:09''\<rparr>
        ''test_basic_search'' ''passed'' (Some 3) None None
      \<circ> add_test_result \<lparr>dt_micros = 5000000, dt_iso = ''2024-01-01T00:00:05''\<rparr>
        ''test_homepage_load'' ''passed'' (Some 2) None None) EnhancedReporter_init"

text \<open>\<open>d[k]\<close> on a value that is a dictionary.\<close>

definition json_field :: "string \<Rightarrow> pyval \<Rightarrow> pyval option" where
  "json_field k v = (case v of PDict d \<Rightarrow> dict_get d k | _ \<Rightarrow> None)"

text \<open>A session with the results passed, passed, failed, skipped, and one screenshot.\<close>

definition four_results_session :: EnhancedReporter where
  "four_results_session =
     (end_session \<lparr>dt_micros = 61500000, dt_iso = ''2024-01-01T00:01:01.500000''\<rparr>
      \<circ> add_test_result \<lparr>dt_micros = 60000000, dt_iso = ''2024-01-01T00:01:00''\<rparr>
          ''test_edge_case_search_handling'' ''skipped'' None None None
      \<circ> add_test_result \<lparr>dt_micros = 50000000, dt_iso = ''2024-01-01T00:00:50''\<rparr>
          ''test_product_page_navigation'' ''failed'' (Some 12.5) (Some ''Test failed'')
          (Some ''screenshots/FAILED_test_product_page_navigation_20240101_000050.png'')
      \<circ> add_screenshot
          (\<lambda>p. p = ''screenshots/FAILED_test_product_page_navigation_20240101_000050.png'')
          \<lparr>dt_micros = 50000000, dt_iso = ''2024-01-01T00:00:50''\<rparr>
          ''screenshots/FAILED_test_product_page_navigation_20240101_000050.png''
          ''Failure screenshot for test_product_page_navigation''
      \<circ> add_test_result \<lparr>dt_micros = 30000000, dt_iso = ''2024-01-01T00:00:30''\<rparr>
          ''test_basic_search'' ''passed'' (Some 8) None None
      \<circ> add_test_result \<lparr>dt_micros = 20000000, dt_iso = ''2024-01-01T00:00:20''\<rparr>
          ''test_homepage_load'' ''passed'' (Some 4.25) None None
      \<circ> start_session \<lparr>dt_micros = 10000000, dt_iso = ''2024-01-01T00:00:10''\<rparr>)
     EnhancedReporter_init"

section \<open>Facts about the reporter\<close>

lemma count_status_count: "count_status s results = count_list (map status results) s"
  by (induction results) (simp_all add: count_status_def)

lemma gallery_entries_filter: "gallery_entries exists ss = filter (\<lambda>s. exists (path s)) ss"
  by (induction ss) simp_all

lemma four_results_session_eq:
  "four_results_session =
     \<lparr>test_results =
        [\<lparr>test_name = ''test_homepage_load'', status = ''passed'', duration = 4.25,
          tr_timestamp = ''2024-01-01T00:00:20'', error_message = None, screenshot_path = None\<rparr>,
         \<lparr>test_name = ''test_basic_search'', status = ''passed'', duration = 8,
          tr_timestamp = ''2024-01-01T00:00:30'', error_message = None, screenshot_path = None\<rparr>,
         \<lparr>test_name = ''test_product_page_navigation'', status = ''failed'', duration = 12.5,
          tr_timestamp = ''2024-01-01T00:00:50'', error_message = Some ''Test failed'',
          screenshot_path =
            Some ''screenshots/FAILED_test_product_page_navigation_20240101_000050.png''\<rparr>,
         \<lparr>test_name = ''test_edge_case_search_handling'', status = ''skipped'', duration = 0,
          tr_timestamp = ''2024-01-01T00:01:00'', error_message = None, screenshot_path = None\<rparr>],
      performance_metrics = [],
      screenshots =
        [\<lparr>path = ''screenshots/FAILED_test_product_page_navigation_20240101_000050.png'',
          description = ''Failure screenshot for test_product_page_navigation'',
          ss_timestamp = ''2024-01-01T00:00:50''\<rparr>],
      start_time = Some \<lparr>dt_micros = 10000000, dt_iso = ''2024-01-01T00:00:10''\<rparr>,
      end_time = Some \<lparr>dt_micros = 61500000, dt_iso = ''2024-01-01T00:01:01.500000''\<rparr>\<rparr>"
  by (simp add: four_results_session_def end_session_def start_session_def add_test_result_def
      add_screenshot_def EnhancedReporter_init_def)

section \<open>Claims on the reporter\<close>

text \<open>
  C1 (as the claim states it, refuted): the claim has the HTML generator compute the same
  total duration as the JSON generator. The JSON generator computes no total duration: for
  the session with two passed tests of 2 and 3 seconds the HTML summary has the total
  duration 5, and the number 5 occurs nowhere in the JSON document.
\<close>

theorem json_report_has_no_total_duration:
  "total_duration (html_summary_of two_passed_session) = 5
   \<and> 5 \<notin> set (pynums (generate_json_report two_passed_session))"
  by (simp add: two_passed_session_def html_summary_of_def add_test_result_def
      EnhancedReporter_init_def generate_json_report_def json_session_def json_summary_def
      session_duration_of_def count_status_def test_result_dict_def opt_str_def)

text \<open>
  C1 (amended): for every reporter state the summary block of the JSON report holds
  \<open>total_tests\<close> = the number of results, \<open>passed\<close>, \<open>failed\<close> and \<open>skipped\<close> = the number of
  results with that status, and \<open>success_rate\<close> = passed / total \<times> 100 (0 without
  results); for statuses passed, passed, failed, skipped it holds 4, 2, 1, 1 and 50; and
  the HTML generator computes the same total, passed, failed and skipped counts and the
  same success rate, and the same session duration as the session block of the JSON
  report. The total duration, the sum of the result durations, is computed by the HTML
  generator only.
\<close>

theorem json_summary_counts:
  "json_field ''summary'' (generate_json_report r) = Some (PDict (json_summary r))
   \<and> json_field ''session'' (generate_json_report r) = Some (PDict (json_session r))
   \<and> dict_get (json_summary r) ''total_tests'' = Some (PNum (real (length (test_results r))))
   \<and> dict_get (json_summary r) ''passed''
       = Some (PNum (real (count_list (map status (test_results r)) ''passed'')))
   \<and> dict_get (json_summary r) ''failed''
       = Some (PNum (real (count_list (map status (test_results r)) ''failed'')))
   \<and> dict_get (json_summary r) ''skipped''
       = Some (PNum (real (count_list (map status (test_results r)) ''skipped'')))
   \<and> dict_get (json_summary r) ''success_rate''
       = Some (PNum (if test_results r = [] then 0
                     else real (count_list (map status (test_results r)) ''passed'')
                            / real (length (test_results r)) * 100))
   \<and> (map status (test_results r) = [''passed'', ''passed'', ''failed'', ''skipped'']
        \<longrightarrow> json_summary r
            = [(''total_tests'', PNum 4), (''passed'', PNum 2), (''failed'', PNum 1),
               (''skipped'', PNum 1), (''success_rate'', PNum 50)])
   \<and> json_summary r
       = [(''total_tests'', PNum (real (total_tests (html_summary_of r)))),
          (''passed'', PNum (real (passed_tests (html_summary_of r)))),
          (''failed'', PNum (real (failed_tests (html_summary_of r)))),
          (''skipped'', PNum (real (skipped_tests (html_summary_of r)))),
          (''success_rate'', PNum (success_rate (html_summary_of r)))]
   \<and> dict_get (json_session r) ''duration''
       = Some (PNum (session_duration (html_summary_of r)))
   \<and> total_duration (html_summary_of r) = (\<Sum>t \<leftarrow> test_results r. duration t)"
proof -
  have example: "json_summary r
        = [(''total_tests'', PNum 4), (''passed'', PNum 2), (''failed'', PNum 1),
           (''skipped'', PNum 1), (''success_rate'', PNum 50)]"
    if st: "map status (test_results r) = [''passed'', ''passed'', ''failed'', ''skipped'']"
  proof -
    have len: "length (test_results r) = 4"
      using arg_cong [OF st, of length] by simp
    then have ne: "test_results r \<noteq> []" by auto
    show ?thesis
      by (simp add: json_summary_def count_status_count st len ne)
  qed
  have html: "json_summary r
       = [(''total_tests'', PNum (real (total_tests (html_summary_of r)))),
          (''passed'', PNum (real (passed_tests (html_summary_of r)))),
          (''failed'', PNum (real (failed_tests (html_summary_of r)))),
          (''skipped'', PNum (real (skipped_tests (html_summary_of r)))),
          (''success_rate'', PNum (success_rate (html_summary_of r)))]"
    by (simp add: json_summary_def html_summary_of_def Let_def)
  show ?thesis
    using example html
    by (simp add: json_field_def generate_json_report_def dict_get_def json_summary_def
        json_session_def html_summary_of_def Let_def count_status_count)
qed

theorem json_summary_counts_witness:
  "json_field ''summary'' (generate_json_report four_results_session)
     = Some (PDict [(''total_tests'', PNum 4), (''passed'', PNum 2), (''failed'', PNum 1),
                    (''skipped'', PNum 1), (''success_rate'', PNum 50)])
   \<and> success_rate (html_summary_of four_results_session) = 50
   \<and> session_duration (html_summary_of four_results_session) = 51.5
   \<and> json_field ''duration'' (PDict (json_session four_results_session)) = Some (PNum 51.5)"
proof -
  have st: "map status (test_results four_results_session)
      = [''passed'', ''passed'', ''failed'', ''skipped'']"
    by (simp add: four_results_session_eq)
  have dur: "session_duration (html_summary_of four_results_session) = 51.5"
    by (simp add: four_results_session_eq html_summary_of_def Let_def session_duration_of_def
        total_seconds_def)
  note counts = json_summary_counts [of four_results_session]
  have doc: "json_field ''summary'' (generate_json_report four_results_session)
        = Some (PDict (json_summary four_results_session))"
    using counts by (rule conjunct1)
  have ex: "map status (test_results four_results_session)
          = [''passed'', ''passed'', ''failed'', ''skipped'']
        \<longrightarrow> json_summary four_results_session
            = [(''total_tests'', PNum 4), (''passed'', PNum 2), (''failed'', PNum 1),
               (''skipped'', PNum 1), (''success_rate'', PNum 50)]"
    using counts by (elim conjE)
  have html: "json_summary four_results_session
       = [(''total_tests'', PNum (real (total_tests (html_summary_of four_results_session)))),
          (''passed'', PNum (real (passed_tests (html_summary_of four_results_session)))),
          (''failed'', PNum (real (failed_tests (html_summary_of four_results_session)))),
          (''skipped'', PNum (real (skipped_tests (html_summary_of four_results_session)))),
          (''success_rate'', PNum (success_rate (html_summary_of four_results_session)))]"
    using counts by (elim conjE)
  have sess: "dict_get (json_session four_results_session) ''duration''
       = Some (PNum (session_duration (html_summary_of four_results_session)))"
    using counts by (elim conjE)
  from ex st have js: "json_summary four_results_session
      = [(''total_tests'', PNum 4), (''passed'', PNum 2), (''failed'', PNum 1),
         (''skipped'', PNum 1), (''success_rate'', PNum 50)]"
    by blast
  from html js have rate: "success_rate (html_summary_of four_results_session) = 50"
    by simp
  from sess dur
  have sd: "json_field ''duration'' (PDict (json_session four_results_session))
      = Some (PNum 51.5)"
    by (simp add: json_field_def)
  from doc js
  have summary: "json_field ''summary'' (generate_json_report four_results_session)
     = Some (PDict [(''total_tests'', PNum 4), (''passed'', PNum 2), (''failed'', PNum 1),
                    (''skipped'', PNum 1), (''success_rate'', PNum 50)])"
    by simp
  show ?thesis
    by (intro conjI; fact summary rate dur sd)
qed

text \<open>
  C7: adding a screenshot whose path does not exist leaves the reporter unchanged, and
  one whose path exists is appended; the gallery of the HTML report has an item exactly for
  the recorded screenshots whose file exists when the report is rendered, so no item
  refers to a missing file, also not for a file that existed when it was recorded.
\<close>

theorem gallery_only_existing_files:
  "(\<not> exists p \<longrightarrow> add_screenshot exists now p d r = r)
   \<and> (exists p \<longrightarrow> screenshots (add_screenshot exists now p d r)
         = screenshots r @ [\<lparr>path = p, description = d, ss_timestamp = dt_iso now\<rparr>])
   \<and> gallery_entries exists_at_render (screenshots r)
       = filter (\<lambda>s. exists_at_render (path s)) (screenshots r)
   \<and> (\<forall>s \<in> set (gallery_entries exists_at_render (screenshots r)).
         exists_at_render (path s) \<and> s \<in> set (screenshots r))
   \<and> (\<not> exists_at_render p \<longrightarrow>
         p \<notin> path ` set (gallery_entries exists_at_render
                 (screenshots (add_screenshot exists now p d r))))
   \<and> gallery_html exists_at_render r
       = (if screenshots r = [] then []
          else ''</div><!-- Screenshots --><div class=\"section screenshots\"><h2>Screenshots</h2>''
               @ ''<div class=\"screenshot-grid\">''
               @ concat (map screenshot_item_html
                   (filter (\<lambda>s. exists_at_render (path s)) (screenshots r)))
               @ ''</div>'')"
proof -
  have missing: "\<not> exists p \<longrightarrow> add_screenshot exists now p d r = r"
    by (simp add: add_screenshot_def)
  have present: "exists p \<longrightarrow> screenshots (add_screenshot exists now p d r)
         = screenshots r @ [\<lparr>path = p, description = d, ss_timestamp = dt_iso now\<rparr>]"
    by (simp add: add_screenshot_def)
  have entries: "gallery_entries exists_at_render (screenshots r)
       = filter (\<lambda>s. exists_at_render (path s)) (screenshots r)"
    by (rule gallery_entries_filter)
  have all_exist: "\<forall>s \<in> set (gallery_entries exists_at_render (screenshots r)).
         exists_at_render (path s) \<and> s \<in> set (screenshots r)"
    by (simp add: gallery_entries_filter)
  have deleted: "\<not> exists_at_render p \<longrightarrow>
         p \<notin> path ` set (gallery_entries exists_at_render
                 (screenshots (add_screenshot exists now p d r)))"
  proof
    assume gone: "\<not> exists_at_render p"
    show "p \<notin> path ` set (gallery_entries exists_at_render
                 (screenshots (add_screenshot exists now p d r)))"
    proof
      assume "p \<in> path ` set (gallery_entries exists_at_render
                 (screenshots (add_screenshot exists now p d r)))"
      then obtain s where "s \<in> set (gallery_entries exists_at_render
                 (screenshots (add_screenshot exists now p d r)))" and "path s = p"
        by blast
      then have "exists_at_render p" by (simp add: gallery_entries_filter)
      with gone show False by simp
    qed
  qed
  have html: "gallery_html exists_at_render r
       = (if screenshots r = [] then []
          else ''</div><!-- Screenshots --><div class=\"section screenshots\"><h2>Screenshots</h2>''
               @ ''<div class=\"screenshot-grid\">''
               @ concat (map screenshot_item_html
                   (filter (\<lambda>s. exists_at_render (path s)) (screenshots r)))
               @ ''</div>'')"
    unfolding gallery_html_def gallery_entries_filter by (cases "screenshots r = []") simp_all
  show ?thesis
    by (intro conjI; fact missing present entries all_exist deleted html)
qed

theorem gallery_only_existing_files_witness:
  "add_screenshot (\<lambda>p. False) \<lparr>dt_micros = 0, dt_iso = ''1970-01-01T00:00:00''\<rparr>
       ''screenshots/missing.png'' ''never written'' four_results_session
     = four_results_session
   \<and> gallery_entries (\<lambda>p. False) (screenshots four_results_session) = []
   \<and> gallery_entries (\<lambda>p. True) (screenshots four_results_session)
       = screenshots four_results_session"
proof -
  from gallery_only_existing_files
      [of "\<lambda>p. False" "''screenshots/missing.png''"
          "\<lparr>dt_micros = 0, dt_iso = ''1970-01-01T00:00:00''\<rparr>" "''never written''"
          four_results_session "\<lambda>p. False"]
  have unchanged: "add_screenshot (\<lambda>p. False) \<lparr>dt_micros = 0, dt_iso = ''1970-01-01T00:00:00''\<rparr>
       ''screenshots/missing.png'' ''never written'' four_results_session
     = four_results_session"
    and none: "gallery_entries (\<lambda>p. False) (screenshots four_results_session)
       = filter (\<lambda>s. False) (screenshots four_results_session)"
    by simp_all
  from gallery_only_existing_files
      [of "\<lambda>p. False" "''screenshots/missing.png''"
          "\<lparr>dt_micros = 0, dt_iso = ''1970-01-01T00:00:00''\<rparr>" "''never written''"
          four_results_session "\<lambda>p. True"]
  have every: "gallery_entries (\<lambda>p. True) (screenshots four_results_session)
       = filter (\<lambda>s. True) (screenshots four_results_session)"
    by simp
  from unchanged none every show ?thesis by simp
qed

section \<open>Single-tab enforcement (utils/browser_config.py)\<close>

text \<open>
  The browser session as far as \<open>enforce_single_tab_mode\<close> uses it: the open window
  handles in the order of \<open>driver.window_handles\<close>, the handle the driver is switched to
  (it may name a closed window), and \<open>faults\<close>, which tells for each coming driver call
  whether it fails with a \<open>WebDriverException\<close> for a reason outside the model (an empty
  list: none does). Windows open and close only through the calls of the function; a
  window that a page opens while the function runs is outside the model.
\<close>

record driver =
  window_handles :: "string list"
  current_window_handle :: string
  faults :: "bool list"

definition next_fault :: "driver \<Rightarrow> bool \<times> driver" where
  "next_fault d = (case faults d of [] \<Rightarrow> (False, d) | f # fs \<Rightarrow> (f, d\<lparr>faults := fs\<rparr>))"

text \<open>\<open>execute_script\<close> needs the current window to be open; the script opens no window.\<close>

definition execute_script :: "driver \<Rightarrow> (error + unit) \<times> driver" where
  "execute_script d =
     (case next_fault d of (f, d') \<Rightarrow>
        if f \<or> current_window_handle d' \<notin> set (window_handles d')
        then (Inl WebDriverException, d') else (Inr (), d'))"

definition get_window_handles :: "driver \<Rightarrow> (error + string list) \<times> driver" where
  "get_window_handles d =
     (case next_fault d of (f, d') \<Rightarrow>
        if f then (Inl WebDriverException, d') else (Inr (window_handles d'), d'))"

definition switch_to_window :: "string \<Rightarrow> driver \<Rightarrow> (error + unit) \<times> driver" where
  "switch_to_window h d =
     (case next_fault d of (f, d') \<Rightarrow>
        if f \<or> h \<notin> set (window_handles d')
        then (Inl WebDriverException, d')
        else (Inr (), d'\<lparr>current_window_handle := h\<rparr>))"

definition close_window :: "driver \<Rightarrow> (error + unit) \<times> driver" where
  "close_window d =
     (case next_fault d of (f, d') \<Rightarrow>
        if f \<or> current_window_handle d' \<notin> set (window_handles d')
        then (Inl WebDriverException, d')
        else (Inr (), d'\<lparr>window_handles :=
                 filter (\<lambda>h. h \<noteq> current_window_handle d') (window_handles d')\<rparr>))"

text \<open>
  \<^verbatim>\<open>
  for handle in handles[1:]:
      driver.switch_to.window(handle)
      driver.close()
  \<close>
\<close>

fun close_additional_tabs :: "string list \<Rightarrow> driver \<Rightarrow> (error + unit) \<times> driver" where
  "close_additional_tabs [] d = (Inr (), d)"
| "close_additional_tabs (handle # rest) d =
     (case switch_to_window handle d of
        (Inl e, d1) \<Rightarrow> (Inl e, d1)
      | (Inr _, d1) \<Rightarrow>
          (case close_window d1 of
             (Inl e, d2) \<Rightarrow> (Inl e, d2)
           | (Inr _, d2) \<Rightarrow> close_additional_tabs rest d2))"

text \<open>
  \<^verbatim>\<open>
  def enforce_single_tab_mode(driver):
      try:
          driver.execute_script(""" ... """)
          handles = driver.window_handles
          if len(handles) > 1:
              main_handle = handles[0]
              for handle in handles[1:]: ...
              driver.switch_to.window(main_handle)
          return True
      except Exception as e:
          return False
  \<close>
\<close>

definition enforce_single_tab_body :: "driver \<Rightarrow> (error + bool) \<times> driver" where
  "enforce_single_tab_body d =
     (case execute_script d of
        (Inl e, d1) \<Rightarrow> (Inl e, d1)
      | (Inr _, d1) \<Rightarrow>
          (case get_window_handles d1 of
             (Inl e, d2) \<Rightarrow> (Inl e, d2)
           | (Inr handles, d2) \<Rightarrow>
               if length handles > 1 then
                 (case handles of
                    main_handle # rest \<Rightarrow>
                      (case close_additional_tabs rest d2 of
                         (Inl e, d3) \<Rightarrow> (Inl e, d3)
                       | (Inr _, d3) \<Rightarrow>
                           (case switch_to_window main_handle d3 of
                              (Inl e, d4) \<Rightarrow> (Inl e, d4)
                            | (Inr _, d4) \<Rightarrow> (Inr True, d4)))
                  | [] \<Rightarrow> (Inr True, d2))
               else (Inr True, d2)))"

definition enforce_single_tab_mode :: "driver \<Rightarrow> bool \<times> driver" where
  "enforce_single_tab_mode d =
     (case enforce_single_tab_body d of
        (Inl e, d') \<Rightarrow> (False, d')
      | (Inr ok, d') \<Rightarrow> (ok, d'))"

section \<open>Facts about the single-tab enforcement\<close>

lemma switch_to_window_ok:
  "switch_to_window h d = (Inr u, d') \<Longrightarrow>
     h \<in> set (window_handles d) \<and> window_handles d' = window_handles d
     \<and> current_window_handle d' = h"
  by (auto simp: switch_to_window_def next_fault_def split: list.splits if_splits)

lemma close_window_ok:
  "close_window d = (Inr u, d') \<Longrightarrow>
     window_handles d' = filter (\<lambda>h. h \<noteq> current_window_handle d) (window_handles d)"
  by (auto simp: close_window_def next_fault_def split: list.splits if_splits)

lemma close_additional_tabs_ok:
  "close_additional_tabs hs d = (Inr u, d') \<Longrightarrow>
     window_handles d' = filter (\<lambda>h. h \<notin> set hs) (window_handles d)"
proof (induction hs arbitrary: d)
  case Nil
  then show ?case by simp
next
  case (Cons h hs)
  from Cons.prems obtain u1 d1 u2 d2 where
    sw: "switch_to_window h d = (Inr u1, d1)" and
    cl: "close_window d1 = (Inr u2, d2)" and
    rest: "close_additional_tabs hs d2 = (Inr u, d')"
    by (auto split: prod.splits sum.splits)
  from switch_to_window_ok [OF sw] close_window_ok [OF cl]
  have "window_handles d2 = filter (\<lambda>x. x \<noteq> h) (window_handles d)" by simp
  with Cons.IH [OF rest] show ?case by (simp add: conj_commute)
qed

lemma close_additional_tabs_no_fault:
  "faults d = [] \<Longrightarrow> distinct hs \<Longrightarrow> set hs \<subseteq> set (window_handles d) \<Longrightarrow>
     \<exists>d'. close_additional_tabs hs d = (Inr (), d') \<and> faults d' = []"
proof (induction hs arbitrary: d)
  case Nil
  then show ?case by simp
next
  case (Cons h hs)
  let ?d1 = "d\<lparr>current_window_handle := h\<rparr>"
  let ?d2 = "?d1\<lparr>window_handles := filter (\<lambda>x. x \<noteq> h) (window_handles d)\<rparr>"
  have sw: "switch_to_window h d = (Inr (), ?d1)"
    using Cons.prems by (simp add: switch_to_window_def next_fault_def)
  have cl: "close_window ?d1 = (Inr (), ?d2)"
    using Cons.prems by (simp add: close_window_def next_fault_def)
  have "faults ?d2 = []" "distinct hs" "set hs \<subseteq> set (window_handles ?d2)"
    using Cons.prems by auto
  from Cons.IH [OF this] sw cl show ?case by simp
qed

lemma execute_script_ok:
  "execute_script d = (Inr u, d') \<Longrightarrow>
     window_handles d' = window_handles d \<and> current_window_handle d' = current_window_handle d
     \<and> current_window_handle d \<in> set (window_handles d)"
  by (auto simp: execute_script_def next_fault_def split: list.splits if_splits)

lemma get_window_handles_ok:
  "get_window_handles d = (Inr hs, d') \<Longrightarrow>
     hs = window_handles d \<and> window_handles d' = window_handles d
     \<and> current_window_handle d' = current_window_handle d"
  by (auto simp: get_window_handles_def next_fault_def split: list.splits if_splits)

lemma enforce_single_tab_body_ok:
  assumes dist: "distinct (window_handles d)"
    and body: "enforce_single_tab_body d = (Inr ok, d')"
  shows "\<exists>main_handle rest. window_handles d = main_handle # rest
           \<and> window_handles d' = [main_handle] \<and> current_window_handle d' = main_handle"
proof -
  from body obtain u1 d1 hs d2 where
    ex: "execute_script d = (Inr u1, d1)" and
    gh: "get_window_handles d1 = (Inr hs, d2)"
    by (auto simp: enforce_single_tab_body_def split: prod.splits sum.splits)
  from execute_script_ok [OF ex] get_window_handles_ok [OF gh]
  have hs: "hs = window_handles d" and h2: "window_handles d2 = window_handles d"
    and c2: "current_window_handle d2 = current_window_handle d"
    and cur: "current_window_handle d \<in> set (window_handles d)"
    by simp_all
  from cur obtain main_handle rest where split: "window_handles d = main_handle # rest"
    by (cases "window_handles d") auto
  show ?thesis
  proof (cases "length hs > 1")
    case True
    with body ex gh hs split obtain u3 d3 u4 where
      ca: "close_additional_tabs rest d2 = (Inr u3, d3)" and
      sw: "switch_to_window main_handle d3 = (Inr u4, d')"
      by (auto simp: enforce_single_tab_body_def split: prod.splits sum.splits)
    from close_additional_tabs_ok [OF ca] h2 split dist
    have "window_handles d3 = [main_handle]"
      by (simp add: filter_id_conv)
    with switch_to_window_ok [OF sw] split show ?thesis by simp
  next
    case False
    with body ex gh have "d' = d2"
      by (auto simp: enforce_single_tab_body_def split: prod.splits sum.splits)
    moreover from False hs split have "rest = []" by simp
    ultimately show ?thesis using split h2 c2 cur by simp
  qed
qed

lemma enforce_single_tab_body_no_fault:
  assumes dist: "distinct (window_handles d)" and nf: "faults d = []"
    and cur: "current_window_handle d \<in> set (window_handles d)"
  shows "\<exists>d'. enforce_single_tab_body d = (Inr True, d')"
proof -
  have ex: "execute_script d = (Inr (), d)"
    using nf cur by (simp add: execute_script_def next_fault_def)
  have gh: "get_window_handles d = (Inr (window_handles d), d)"
    using nf by (simp add: get_window_handles_def next_fault_def)
  from cur obtain main_handle rest where split: "window_handles d = main_handle # rest"
    by (cases "window_handles d") auto
  with dist have "distinct rest" "set rest \<subseteq> set (window_handles d)" by auto
  from close_additional_tabs_no_fault [OF nf this]
  obtain d3 where ca: "close_additional_tabs rest d = (Inr (), d3)" and nf3: "faults d3 = []"
    by blast
  from close_additional_tabs_ok [OF ca] split dist
  have "main_handle \<in> set (window_handles d3)" by simp
  with nf3 have "\<exists>d4. switch_to_window main_handle d3 = (Inr (), d4)"
    by (simp add: switch_to_window_def next_fault_def)
  then show ?thesis
    using ex gh ca split by (auto simp: enforce_single_tab_body_def)
qed

section \<open>Claim on the single-tab enforcement\<close>

text \<open>
  C4: the operation always returns a boolean (a driver error becomes \<open>False\<close>). Whenever
  it returns \<open>True\<close>, started with any list of distinct open window handles, exactly one
  window handle is open afterwards, it is the first handle of the list at the call, and the
  driver is switched to it. With no driver fault and the current window open, it returns
  \<open>True\<close>.
\<close>

theorem enforce_single_tab_mode_one_window:
  "(distinct (window_handles d) \<and> enforce_single_tab_mode d = (True, d')
      \<longrightarrow> window_handles d \<noteq> [] \<and> window_handles d' = [hd (window_handles d)]
          \<and> current_window_handle d' = hd (window_handles d))
   \<and> (distinct (window_handles d) \<and> faults d = []
        \<and> current_window_handle d \<in> set (window_handles d)
      \<longrightarrow> fst (enforce_single_tab_mode d) = True)
   \<and> (\<exists>ok d''. enforce_single_tab_mode d = (ok, d''))"
proof -
  have one: "window_handles d \<noteq> [] \<and> window_handles d' = [hd (window_handles d)]
          \<and> current_window_handle d' = hd (window_handles d)"
    if dist: "distinct (window_handles d)" and ok: "enforce_single_tab_mode d = (True, d')"
  proof -
    from ok have "enforce_single_tab_body d = (Inr True, d')"
      by (auto simp: enforce_single_tab_mode_def split: prod.splits sum.splits)
    from enforce_single_tab_body_ok [OF dist this] show ?thesis by auto
  qed
  have live: "fst (enforce_single_tab_mode d) = True"
    if "distinct (window_handles d)" "faults d = []"
      "current_window_handle d \<in> set (window_handles d)"
    using enforce_single_tab_body_no_fault [OF that]
    by (auto simp: enforce_single_tab_mode_def)
  have total: "\<exists>ok d''. enforce_single_tab_mode d = (ok, d'')"
    by (cases "enforce_single_tab_mode d") simp
  from one live total show ?thesis by blast
qed

theorem enforce_single_tab_mode_one_window_witness:
  "fst (enforce_single_tab_mode
      \<lparr>window_handles = [''main'', ''popup1'', ''popup2''],
       current_window_handle = ''popup1'', faults = []\<rparr>) = True
   \<and> window_handles (snd (enforce_single_tab_mode
        \<lparr>window_handles = [''main'', ''popup1'', ''popup2''],
         current_window_handle = ''popup1'', faults = []\<rparr>)) = [''main'']
   \<and> current_window_handle (snd (enforce_single_tab_mode
        \<lparr>window_handles = [''main'', ''popup1'', ''popup2''],
         current_window_handle = ''popup1'', faults = []\<rparr>)) = ''main''"
proof -
  let ?d = "\<lparr>window_handles = [''main'', ''popup1'', ''popup2''],
             current_window_handle = ''popup1'', faults = []\<rparr>"
  obtain ok d' where run: "enforce_single_tab_mode ?d = (ok, d')"
    by (cases "enforce_single_tab_mode ?d")
  have dist: "distinct (window_handles ?d)" by simp
  have ready: "faults ?d = [] \<and> current_window_handle ?d \<in> set (window_handles ?d)" by simp
  from enforce_single_tab_mode_one_window [of ?d d'] dist ready
  have "fst (enforce_single_tab_mode ?d) = True" by blast
  with run have ok: "enforce_single_tab_mode ?d = (True, d')" by simp
  with enforce_single_tab_mode_one_window [of ?d d'] dist
  have "window_handles d' = [hd (window_handles ?d)]
      \<and> current_window_handle d' = hd (window_handles ?d)"
    by blast
  with ok show ?thesis by simp
qed

section \<open>Price extraction from one product element (utils/test_helpers.py)\<close>

text \<open>The string operations of the extractor.\<close>

text \<open>
  \<open>str.strip()\<close> removes the characters for which \<open>str.isspace\<close> holds; below 256 these
  are 0x09 to 0x0D, 0x1C to 0x20, 0x85 (next line) and 0xA0 (no-break space).
\<close>

definition is_space :: "char \<Rightarrow> bool" where
  "is_space c \<longleftrightarrow>
     c \<in> set [CHR 0x09, CHR 0x0A, CHR 0x0B, CHR 0x0C, CHR 0x0D,
               CHR 0x1C, CHR 0x1D, CHR 0x1E, CHR 0x1F, CHR 0x20, CHR 0x85, CHR 0xA0]"

definition py_strip :: "string \<Rightarrow> string" where
  "py_strip s = rev (dropWhile is_space (rev (dropWhile is_space s)))"

text \<open>\<open>s.replace(',', '')\<close>\<close>

definition remove_commas :: "string \<Rightarrow> string" where
  "remove_commas s = filter (\<lambda>c. c \<noteq> CHR '','') s"

definition is_digit :: "char \<Rightarrow> bool" where
  "is_digit c \<longleftrightarrow> c \<in> set ''0123456789''"

text \<open>
  \<open>re.search(r'[\d,]+', s)\<close>: the leftmost, longest run of digits and commas, if there is
  one.
\<close>

definition re_search_digits_commas :: "string \<Rightarrow> string option" where
  "re_search_digits_commas s =
     (let from_first = dropWhile (\<lambda>c. \<not> (is_digit c \<or> c = CHR '','')) s;
          run = takeWhile (\<lambda>c. is_digit c \<or> c = CHR '','') from_first
      in if run = [] then None else Some run)"

text \<open>
  \<open>re.sub(r'<[^>]+>', '', s)\<close>: at a \<open><\<close> followed by at least one character other than
  \<open>>\<close> and then a \<open>>\<close>, the whole tag is dropped; any other character is kept.
\<close>

function strip_tags :: "string \<Rightarrow> string" where
  "strip_tags [] = []"
| "strip_tags (c # cs) =
     (if c = CHR ''<'' \<and> takeWhile (\<lambda>x. x \<noteq> CHR ''>'') cs \<noteq> []
         \<and> dropWhile (\<lambda>x. x \<noteq> CHR ''>'') cs \<noteq> []
      then strip_tags (tl (dropWhile (\<lambda>x. x \<noteq> CHR ''>'') cs))
      else c # strip_tags cs)"
  by pat_completeness auto
termination
proof (relation "measure length")
  show "wf (measure length)" by simp
next
  fix c :: char and cs :: string
  have "length (tl (dropWhile (\<lambda>x. x \<noteq> CHR ''>'') cs)) \<le> length cs"
    using length_dropWhile_le [of "\<lambda>x. x \<noteq> CHR ''>''" cs] by simp
  then show "(tl (dropWhile (\<lambda>x. x \<noteq> CHR ''>'') cs), c # cs) \<in> measure length"
    by simp
next
  fix c :: char and cs :: string
  show "(cs, c # cs) \<in> measure length" by simp
qed

definition digit_value :: "char \<Rightarrow> int" where
  "digit_value c =
     (case map_of (zip ''0123456789'' [0, 1, 2, 3, 4, 5, 6, 7, 8, 9]) c of
        Some v \<Rightarrow> v
      | None \<Rightarrow> 0)"

text \<open>
  \<open>int(s)\<close> on a string of decimal digits; any other string that the extractor could pass
  raises \<open>ValueError\<close>.
\<close>

definition py_int :: "string \<Rightarrow> error + int" where
  "py_int s =
     (if s \<noteq> [] \<and> list_all is_digit s
      then Inr (foldl (\<lambda>n c. 10 * n + digit_value c) 0 s)
      else Inl (ValueError ''invalid literal for int()''))"

text \<open>
  A price element of the page: its \<open>.text\<close> and its \<open>textContent\<close> and \<open>innerHTML\<close>
  attributes, each of which the driver may fail to read.
\<close>

datatype selenium_error =
    NoSuchElementException
  | StaleElementReferenceException
  | OtherWebDriverException

record web_element =
  el_text :: "selenium_error + string"
  el_textContent :: "selenium_error + string option"
  el_innerHTML :: "selenium_error + string option"

text \<open>A product element answers \<open>find_elements(By.CSS_SELECTOR, selector)\<close>.\<close>

type_synonym product_element = "string \<Rightarrow> selenium_error + web_element list"

record price_data =
  price_value :: int
  original_text :: string
  selector_used :: string

definition price_selectors :: "string list" where
  "price_selectors =
     [''.a-price-whole'',
      ''.a-price .a-offscreen'',
      ''.a-price-range .a-offscreen'',
      ''.a-price-symbol + .a-price-whole'',
      ''[data-a-price] .a-offscreen'',
      ''.a-price-display .a-offscreen'',
      ''.a-price .a-price-whole'',
      ''.a-price-range .a-price-whole'',
      ''*[class*='' @ [CHR 0x27] @ ''price'' @ [CHR 0x27] @ ''] *[class*=''
         @ [CHR 0x27] @ ''whole'' @ [CHR 0x27] @ '']'',
      ''*[class*='' @ [CHR 0x27] @ ''price'' @ [CHR 0x27] @ ''] *[class*=''
         @ [CHR 0x27] @ ''amount'' @ [CHR 0x27] @ '']'',
      ''*[data-testid*='' @ [CHR 0x27] @ ''price'' @ [CHR 0x27] @ '']'',
      ''*[aria-label*='' @ [CHR 0x27] @ ''price'' @ [CHR 0x27] @ '']'']"

text \<open>
  \<^verbatim>\<open>
  price_text = None
  if price_element.text.strip():
      price_text = price_element.text.strip()
  elif price_element.get_attribute("textContent"):
      price_text = price_element.get_attribute("textContent").strip()
  elif price_element.get_attribute("innerHTML"):
      html_content = price_element.get_attribute("innerHTML")
      price_text = re.sub(r'<[^>]+>', '', html_content).strip()
  \<close>
\<close>

definition price_text_from_innerHTML :: "web_element \<Rightarrow> selenium_error + string option" where
  "price_text_from_innerHTML el =
     (case el_innerHTML el of
        Inl e \<Rightarrow> Inl e
      | Inr None \<Rightarrow> Inr None
      | Inr (Some html_content) \<Rightarrow>
          if html_content \<noteq> [] then Inr (Some (py_strip (strip_tags html_content)))
          else Inr None)"

definition price_text_of :: "web_element \<Rightarrow> selenium_error + string option" where
  "price_text_of el =
     (case el_text el of
        Inl e \<Rightarrow> Inl e
      | Inr t \<Rightarrow>
          if py_strip t \<noteq> [] then Inr (Some (py_strip t))
          else (case el_textContent el of
                  Inl e \<Rightarrow> Inl e
                | Inr None \<Rightarrow> price_text_from_innerHTML el
                | Inr (Some tc) \<Rightarrow>
                    if tc \<noteq> [] then Inr (Some (py_strip tc))
                    else price_text_from_innerHTML el))"

text \<open>
  \<^verbatim>\<open>
  price_match = re.search(r'[\d,]+', price_text.replace(',', ''))
  if price_match:
      try:
          price_value = int(price_match.group().replace(',', ''))
          ...
      except ValueError:
          continue
  \<close>
  \<open>parse_price_text\<close> is the integer so obtained, if there is one.
\<close>

definition parse_price_text :: "string \<Rightarrow> int option" where
  "parse_price_text price_text =
     (case re_search_digits_commas (remove_commas price_text) of
        None \<Rightarrow> None
      | Some m \<Rightarrow>
          (case py_int (remove_commas m) of
             Inl e \<Rightarrow> None
           | Inr v \<Rightarrow> Some v))"

definition price_from_price_element ::
  "string \<Rightarrow> web_element \<Rightarrow> selenium_error + price_data option" where
  "price_from_price_element selector price_element =
     (case price_text_of price_element of
        Inl e \<Rightarrow> Inl e
      | Inr None \<Rightarrow> Inr None
      | Inr (Some price_text) \<Rightarrow>
          if price_text \<noteq> [] then
            (case parse_price_text price_text of
               None \<Rightarrow> Inr None
             | Some v \<Rightarrow>
                 if 50 \<le> v \<and> v \<le> 10000000
                 then Inr (Some \<lparr>price_value = v, original_text = price_text,
                                  selector_used = selector\<rparr>)
                 else Inr None)
          else Inr None)"

text \<open>The loop over the elements that one selector finds; it stops at the first price.\<close>

fun scan_price_elements ::
  "string \<Rightarrow> web_element list \<Rightarrow> selenium_error + price_data option" where
  "scan_price_elements selector [] = Inr None"
| "scan_price_elements selector (price_element # rest) =
     (case price_from_price_element selector price_element of
        Inl e \<Rightarrow> Inl e
      | Inr (Some found) \<Rightarrow> Inr (Some found)
      | Inr None \<Rightarrow> scan_price_elements selector rest)"

text \<open>
  The loop over the selectors; an exception inside the \<open>try\<close> moves on to the next
  selector (\<open>except (NoSuchElementException, Exception): continue\<close>).
\<close>

fun scan_price_selectors :: "product_element \<Rightarrow> string list \<Rightarrow> price_data option" where
  "scan_price_selectors product_element [] = None"
| "scan_price_selectors product_element (selector # rest) =
     (case product_element selector of
        Inl e \<Rightarrow> scan_price_selectors product_element rest
      | Inr price_elements \<Rightarrow>
          (case scan_price_elements selector price_elements of
             Inl e \<Rightarrow> scan_price_selectors product_element rest
           | Inr (Some found) \<Rightarrow> Some found
           | Inr None \<Rightarrow> scan_price_selectors product_element rest))"

definition extract_price_from_element :: "product_element \<Rightarrow> price_data option" where
  "extract_price_from_element product_element =
     scan_price_selectors product_element price_selectors"

text \<open>A product element with one price element, found by the first selector only.\<close>

definition product_with_text :: "string \<Rightarrow> product_element" where
  "product_with_text t =
     (\<lambda>selector. if selector = ''.a-price-whole''
        then Inr [\<lparr>el_text = Inr t, el_textContent = Inr (Some t), el_innerHTML = Inr (Some t)\<rparr>]
        else Inr [])"

section \<open>Facts about the price extraction\<close>

lemma price_from_price_element_Some:
  "price_from_price_element selector el = Inr (Some found) \<Longrightarrow>
     50 \<le> price_value found \<and> price_value found \<le> 10000000
     \<and> selector_used found = selector
     \<and> price_text_of el = Inr (Some (original_text found))
     \<and> parse_price_text (original_text found) = Some (price_value found)"
  by (auto simp: price_from_price_element_def split: sum.splits option.splits if_splits)

lemma scan_price_elements_Some:
  "scan_price_elements selector els = Inr (Some found) \<Longrightarrow>
     \<exists>el \<in> set els. price_from_price_element selector el = Inr (Some found)"
  by (induction els) (auto split: sum.splits option.splits)

lemma scan_price_selectors_Some:
  "scan_price_selectors product_element selectors = Some found \<Longrightarrow>
     \<exists>selector \<in> set selectors. \<exists>els. product_element selector = Inr els
        \<and> scan_price_elements selector els = Inr (Some found)"
  by (induction selectors) (auto split: sum.splits option.splits)

lemma parse_price_text_examples:
  "parse_price_text ''10'' = Some 10"
  "parse_price_text ''50,000,001'' = Some 50000001"
  "parse_price_text ''Rs. 1,299.00'' = Some 1299"
  "parse_price_text '', 100'' = Some 100"
  "parse_price_text ''Currently unavailable'' = None"
  by (simp_all add: parse_price_text_def remove_commas_def re_search_digits_commas_def
      is_digit_def py_int_def digit_value_def)

section \<open>Claim on the price extraction\<close>

text \<open>
  C2: when the extractor returns a record, its price lies in [50, 10,000,000], it is the
  integer parsed from the record's original text (the first run of digits of that text
  with the commas removed), the original text is the text obtained from a price element
  that the record's selector found, and that selector is one of the extractor's selectors.
  When every text that a price element yields parses to an integer outside the range (or
  to none), the extractor returns absent; so a product whose only price text is \<open>10\<close> or
  \<open>50,000,001\<close> gives absent.
\<close>

theorem extract_price_from_element_range:
  "(extract_price_from_element product_element = Some found \<longrightarrow>
       50 \<le> price_value found \<and> price_value found \<le> 10000000
       \<and> parse_price_text (original_text found) = Some (price_value found)
       \<and> selector_used found \<in> set price_selectors
       \<and> (\<exists>els. product_element (selector_used found) = Inr els
             \<and> (\<exists>el \<in> set els. price_text_of el = Inr (Some (original_text found)))))
   \<and> ((\<forall>selector \<in> set price_selectors. \<forall>els. product_element selector = Inr els \<longrightarrow>
          (\<forall>el \<in> set els. \<forall>price_text v. price_text_of el = Inr (Some price_text) \<longrightarrow>
              parse_price_text price_text = Some v \<longrightarrow> v < 50 \<or> 10000000 < v))
       \<longrightarrow> extract_price_from_element product_element = None)"
proof -
  have sound: "50 \<le> price_value found \<and> price_value found \<le> 10000000
       \<and> parse_price_text (original_text found) = Some (price_value found)
       \<and> selector_used found \<in> set price_selectors
       \<and> (\<exists>els. product_element (selector_used found) = Inr els
             \<and> (\<exists>el \<in> set els. price_text_of el = Inr (Some (original_text found))))"
    if "scan_price_selectors product_element price_selectors = Some found" for found
  proof -
    from scan_price_selectors_Some [OF that]
    obtain selector els where sel: "selector \<in> set price_selectors"
      and els: "product_element selector = Inr els"
      and scan: "scan_price_elements selector els = Inr (Some found)"
      by blast
    from scan_price_elements_Some [OF scan]
    obtain el where el: "el \<in> set els"
      and one: "price_from_price_element selector el = Inr (Some found)"
      by blast
    from price_from_price_element_Some [OF one] sel els el show ?thesis by auto
  qed
  have absent: "scan_price_selectors product_element price_selectors = None"
    if out: "\<forall>selector \<in> set price_selectors. \<forall>els. product_element selector = Inr els \<longrightarrow>
          (\<forall>el \<in> set els. \<forall>price_text v. price_text_of el = Inr (Some price_text) \<longrightarrow>
              parse_price_text price_text = Some v \<longrightarrow> v < 50 \<or> 10000000 < v)"
  proof (rule ccontr)
    assume "scan_price_selectors product_element price_selectors \<noteq> None"
    then obtain found where
      f: "scan_price_selectors product_element price_selectors = Some found"
      by auto
    from sound [OF f] obtain els el where
      "product_element (selector_used found) = Inr els" "el \<in> set els"
      "price_text_of el = Inr (Some (original_text found))"
      "selector_used found \<in> set price_selectors"
      "parse_price_text (original_text found) = Some (price_value found)"
      "50 \<le> price_value found" "price_value found \<le> 10000000"
      by blast
    with out show False by fastforce
  qed
  from sound absent show ?thesis
    unfolding extract_price_from_element_def by blast
qed

theorem extract_price_from_element_range_witness:
  "extract_price_from_element (product_with_text '' 1,299 '')
     = Some \<lparr>price_value = 1299, original_text = ''1,299'', selector_used = ''.a-price-whole''\<rparr>
   \<and> extract_price_from_element (product_with_text ''10'') = None
   \<and> extract_price_from_element (product_with_text ''50,000,001'') = None
   \<and> (1299::int) \<in> {50..10000000}"
proof -
  have found: "extract_price_from_element (product_with_text '' 1,299 '')
     = Some \<lparr>price_value = 1299, original_text = ''1,299'', selector_used = ''.a-price-whole''\<rparr>"
    by (simp add: extract_price_from_element_def price_selectors_def product_with_text_def
        price_from_price_element_def price_text_of_def py_strip_def is_space_def
        parse_price_text_def remove_commas_def re_search_digits_commas_def is_digit_def
        py_int_def digit_value_def)
  have texts: "price_text_of el = Inr (Some price_text) \<Longrightarrow> price_text = t"
    if "product_with_text t selector = Inr els" "el \<in> set els" "py_strip t = t" "t \<noteq> []"
    for t selector els el price_text
    using that by (auto simp: product_with_text_def price_text_of_def split: if_splits)
  have low: "extract_price_from_element (product_with_text ''10'') = None"
  proof -
    have "\<forall>selector \<in> set price_selectors. \<forall>els. product_with_text ''10'' selector = Inr els \<longrightarrow>
          (\<forall>el \<in> set els. \<forall>price_text v. price_text_of el = Inr (Some price_text) \<longrightarrow>
              parse_price_text price_text = Some v \<longrightarrow> v < 50 \<or> 10000000 < v)"
    proof (intro ballI allI impI)
      fix selector els el price_text v
      assume "product_with_text ''10'' selector = Inr els" "el \<in> set els"
        "price_text_of el = Inr (Some price_text)" "parse_price_text price_text = Some v"
      moreover have "py_strip ''10'' = ''10''" by (simp add: py_strip_def is_space_def)
      ultimately have "parse_price_text ''10'' = Some v" using texts [of "''10''"] by auto
      then show "v < 50 \<or> 10000000 < v" by (simp add: parse_price_text_examples)
    qed
    with extract_price_from_element_range [of "product_with_text ''10''"] show ?thesis
      by blast
  qed
  have high: "extract_price_from_element (product_with_text ''50,000,001'') = None"
  proof -
    have "\<forall>selector \<in> set price_selectors.
          \<forall>els. product_with_text ''50,000,001'' selector = Inr els \<longrightarrow>
          (\<forall>el \<in> set els. \<forall>price_text v. price_text_of el = Inr (Some price_text) \<longrightarrow>
              parse_price_text price_text = Some v \<longrightarrow> v < 50 \<or> 10000000 < v)"
    proof (intro ballI allI impI)
      fix selector els el price_text v
      assume "product_with_text ''50,000,001'' selector = Inr els" "el \<in> set els"
        "price_text_of el = Inr (Some price_text)" "parse_price_text price_text = Some v"
      moreover have "py_strip ''50,000,001'' = ''50,000,001''"
        by (simp add: py_strip_def is_space_def)
      ultimately have "parse_price_text ''50,000,001'' = Some v"
        using texts [of "''50,000,001''"] by auto
      then show "v < 50 \<or> 10000000 < v" by (simp add: parse_price_text_examples)
    qed
    with extract_price_from_element_range [of "product_with_text ''50,000,001''"] show ?thesis
      by blast
  qed
  from extract_price_from_element_range
    [of "product_with_text '' 1,299 ''"
        "\<lparr>price_value = 1299, original_text = ''1,299'', selector_used = ''.a-price-whole''\<rparr>"]
    found
  have "(1299::int) \<in> {50..10000000}" by simp
  with found low high show ?thesis by simp
qed

section \<open>The test runner (run_tests.py)\<close>

text \<open>
  What the runner reads from its surroundings: the Python version, which packages can be
  imported, which paths exist, the time stamp that \<open>strftime\<close> gives for the report name,
  and what \<open>subprocess.run\<close> does with a command: it returns a process with a return code or
  raises. Printing and the creation of the working directories are left out.
\<close>

record cli_env =
  python_version :: "nat \<times> nat"
  importable :: "string \<Rightarrow> bool"
  path_exists :: "string \<Rightarrow> bool"
  strftime_now :: string
  subprocess_run :: "string list \<Rightarrow> error + int"

text \<open>
  \<^verbatim>\<open>
  def check_environment():
      if sys.version_info < (3, 8):
          return False
      for package in ['pytest', 'selenium', 'webdriver_manager']:
          try: __import__(package)
          except ImportError: return False
      for file_path in ["tests/test_amazon_complete.py", "utils/browser_config.py"]:
          if not os.path.exists(file_path): return False
      for directory in ["screenshots", "reports", "logs"]:
          os.makedirs(directory, exist_ok=True)
      return True
  \<close>
\<close>

definition check_environment :: "cli_env \<Rightarrow> bool" where
  "check_environment env =
     (case python_version env of (major, minor) \<Rightarrow>
        if major < 3 \<or> (major = 3 \<and> minor < 8) then False
        else if \<not> list_all (importable env) [''pytest'', ''selenium'', ''webdriver_manager'']
          then False
        else if \<not> list_all (path_exists env)
                    [''tests/test_amazon_complete.py'', ''utils/browser_config.py'']
          then False
        else True)"

definition basic_cmd :: "cli_env \<Rightarrow> string list" where
  "basic_cmd env =
     [''pytest'', ''tests/test_amazon_complete.py::TestAmazonBasic'', ''-m'', ''basic'', ''-v'',
      ''--tb=short'', ''--html=reports/basic_test_report_'' @ strftime_now env @ ''.html'',
      ''--self-contained-html'']"

definition advanced_cmd :: "cli_env \<Rightarrow> string list" where
  "advanced_cmd env =
     [''pytest'', ''tests/test_amazon_complete.py::TestAmazonAdvanced'', ''-m'', ''advanced'',
      ''-v'', ''--tb=short'',
      ''--html=reports/advanced_test_report_'' @ strftime_now env @ ''.html'',
      ''--self-contained-html'']"

definition both_cmd :: "cli_env \<Rightarrow> string list" where
  "both_cmd env =
     [''pytest'', ''tests/test_amazon_complete.py'', ''-v'', ''--tb=short'',
      ''--html=reports/complete_test_report_'' @ strftime_now env @ ''.html'',
      ''--self-contained-html'']"

definition class_map :: "(string \<times> string) list" where
  "class_map =
     [(''basic'', ''TestAmazonBasic''), (''advanced'', ''TestAmazonAdvanced''),
      (''both'', ''TestAmazonBoth'')]"

definition specific_cmd :: "string \<Rightarrow> string \<Rightarrow> string list option" where
  "specific_cmd category tname =
     (case map_of class_map (py_lower category) of
        None \<Rightarrow> None
      | Some test_class \<Rightarrow>
          Some [''pytest'',
                ''tests/test_amazon_complete.py::'' @ test_class @ ''::'' @ tname,
                ''-v'', ''--tb=short'', ''-s''])"

definition basic_tests :: "string list" where
  "basic_tests = [''test_homepage_load'', ''test_basic_search'', ''test_product_page_navigation'']"

definition advanced_tests :: "string list" where
  "advanced_tests =
     [''test_comprehensive_search_with_categories'',
      ''test_advanced_price_validation_with_accuracy'',
      ''test_advanced_product_interaction_with_mouse_automation'',
      ''test_performance_and_comprehensive_validation'',
      ''test_location_and_language_testing'',
      ''test_authentication_flow_simulation'',
      ''test_comprehensive_filter_testing'',
      ''test_edge_case_search_handling'',
      ''test_advanced_redirection_testing'',
      ''test_comprehensive_otp_login_simulation'',
      ''test_advanced_language_changing'',
      ''test_comprehensive_location_changing'']"

definition both_tests :: "string list" where
  "both_tests = [''test_complete_workflow_basic_to_advanced'']"

text \<open>\<open>str(n)\<close> for a natural number.\<close>

fun str_of_nat :: "nat \<Rightarrow> string" where
  "str_of_nat n =
     (if n < 10 then [''0123456789'' ! n]
      else str_of_nat (n div 10) @ [''0123456789'' ! (n mod 10)])"

declare str_of_nat.simps [simp del]

text \<open>
  The numbers that the test menu of a category accepts: \<open>["1", "2", "3"]\<close>,
  \<open>[str(i) for i in range(1, 13)]\<close> and \<open>"1"\<close>; the test chosen is
  \<open>tests[int(test_choice) - 1]\<close>.
\<close>

definition choice_numbers :: "nat \<Rightarrow> string list" where
  "choice_numbers n = map str_of_nat [1..<Suc n]"

definition selected_test :: "string \<Rightarrow> string \<Rightarrow> string option" where
  "selected_test category test_choice =
     (if category = ''basic'' then map_of (zip (choice_numbers 3) basic_tests) test_choice
      else if category = ''advanced''
        then map_of (zip (choice_numbers 12) advanced_tests) test_choice
      else map_of (zip (choice_numbers 1) both_tests) test_choice)"

text \<open>
  The interactive mode reads the operator's lines with \<open>input()\<close>. An input is a line or a
  keyboard interrupt; when the inputs are used up, \<open>input()\<close> raises \<open>EOFError\<close>. The
  places where the program waits for input are the prompts: the main menu, the pause after
  a run, the pause after a caught error, and the category and test menus of
  \<open>handle_specific_test_selection\<close>.

  In \<open>main\<close> the menu choice is read outside the \<open>try\<close>, so an exception there leaves
  \<open>main\<close>; everything else runs inside it: a \<open>KeyboardInterrupt\<close> ends the loop and \<open>main\<close>
  returns 0, any other exception is printed and followed by a pause, which is read inside
  the handler, so an exception there leaves \<open>main\<close> as well.
\<close>

datatype inp = Line string | Interrupt

datatype prompt = MainChoice | PressEnter | ErrorPause | CategoryChoice | TestChoice string

type_synonym trace = "string list list"

fun interactive :: "cli_env \<Rightarrow> prompt \<Rightarrow> inp list \<Rightarrow> trace \<Rightarrow> (error + int) \<times> trace" where
  "interactive env p [] tr = (Inl EOFError, tr)"
| "interactive env p (Interrupt # rest) tr =
     (if p = MainChoice \<or> p = ErrorPause then (Inl KeyboardInterrupt, tr) else (Inr 0, tr))"
| "interactive env MainChoice (Line l # rest) tr =
     (let choice = py_strip l in
      if choice = ''1'' \<or> choice = ''2'' \<or> choice = ''3'' then
        (let cmd = (if choice = ''1'' then basic_cmd env
                    else if choice = ''2'' then advanced_cmd env else both_cmd env)
         in case subprocess_run env cmd of
              Inl e \<Rightarrow> if e = KeyboardInterrupt then (Inr 0, tr @ [cmd])
                       else interactive env ErrorPause rest (tr @ [cmd])
            | Inr rc \<Rightarrow> interactive env PressEnter rest (tr @ [cmd]))
      else if choice = ''4'' then interactive env CategoryChoice rest tr
      else if choice = ''0'' then (Inr 0, tr)
      else interactive env MainChoice rest tr)"
| "interactive env PressEnter (Line l # rest) tr = interactive env MainChoice rest tr"
| "interactive env ErrorPause (Line l # rest) tr = interactive env MainChoice rest tr"
| "interactive env CategoryChoice (Line l # rest) tr =
     (let category_choice = py_strip l in
      if category_choice = ''0'' then interactive env MainChoice rest tr
      else if category_choice = ''1'' then interactive env (TestChoice ''basic'') rest tr
      else if category_choice = ''2'' then interactive env (TestChoice ''advanced'') rest tr
      else if category_choice = ''3'' then interactive env (TestChoice ''both'') rest tr
      else interactive env CategoryChoice rest tr)"
| "interactive env (TestChoice category) (Line l # rest) tr =
     (case selected_test category (py_strip l) of
        None \<Rightarrow> interactive env CategoryChoice rest tr
      | Some tname \<Rightarrow>
          (case specific_cmd category tname of
             None \<Rightarrow> interactive env MainChoice rest tr
           | Some cmd \<Rightarrow>
               (case subprocess_run env cmd of
                  Inl e \<Rightarrow> if e = KeyboardInterrupt then (Inr 0, tr @ [cmd])
                           else interactive env ErrorPause rest (tr @ [cmd])
                | Inr rc \<Rightarrow> interactive env MainChoice rest (tr @ [cmd]))))"

text \<open>
  \<^verbatim>\<open>
  def main():
      show_banner()
      if not check_environment():
          return 1
      if len(sys.argv) > 1:
          arg = sys.argv[1].lower()
          if arg == "--basic": return run_basic_tests().returncode
          elif arg == "--advanced": return run_advanced_tests().returncode
          elif arg == "--both" or arg == "--all": return run_both_tests().returncode
          else: return 1
      while True: ...
      return 0
  \<close>
  \<open>main\<close> gives the value it returns (or the exception that leaves it) and the commands it
  has launched, in order.
\<close>

definition run_and_return :: "cli_env \<Rightarrow> string list \<Rightarrow> (error + int) \<times> trace" where
  "run_and_return env cmd =
     (case subprocess_run env cmd of Inl e \<Rightarrow> (Inl e, [cmd]) | Inr rc \<Rightarrow> (Inr rc, [cmd]))"

definition main :: "cli_env \<Rightarrow> string list \<Rightarrow> inp list \<Rightarrow> (error + int) \<times> trace" where
  "main env argv inputs =
     (if \<not> check_environment env then (Inr 1, [])
      else if length argv > 1 then
        (let arg = py_lower (argv ! 1) in
         if arg = ''--basic'' then run_and_return env (basic_cmd env)
         else if arg = ''--advanced'' then run_and_return env (advanced_cmd env)
         else if arg = ''--both'' \<or> arg = ''--all'' then run_and_return env (both_cmd env)
         else (Inr 1, []))
      else interactive env MainChoice inputs [])"

text \<open>An environment that passes the check and in which every run ends with code 2.\<close>

definition ready_env :: cli_env where
  "ready_env =
     \<lparr>python_version = (3, 11), importable = (\<lambda>p. True), path_exists = (\<lambda>p. True),
      strftime_now = ''20240101_000000'', subprocess_run = (\<lambda>cmd. Inr 2)\<rparr>"

text \<open>The same environment without the \<open>selenium\<close> package.\<close>

definition broken_env :: cli_env where
  "broken_env = ready_env\<lparr>importable := (\<lambda>p. p \<noteq> ''selenium'')\<rparr>"

section \<open>Facts about the test runner\<close>

lemma interactive_returns_zero:
  "interactive env p inputs tr = (Inr rc, tr') \<Longrightarrow> rc = 0"
  by (induction env p inputs tr rule: interactive.induct)
     (auto simp: Let_def split: sum.splits option.splits if_splits)

lemma interactive_exit_choice: "interactive env MainChoice (Line ''0'' # rest) tr = (Inr 0, tr)"
  by (simp add: py_strip_def is_space_def)

lemma check_environment_ready: "check_environment ready_env"
  by (simp add: check_environment_def ready_env_def)

lemma check_environment_broken: "\<not> check_environment broken_env"
  by (simp add: check_environment_def broken_env_def ready_env_def)

section \<open>Claim on the test runner\<close>

text \<open>
  C8: \<open>main\<close> returns 1 and launches no command when the first argument is not one of
  \<open>--basic\<close>, \<open>--advanced\<close>, \<open>--both\<close>, \<open>--all\<close> (compared in lower case), and when the
  environment check fails, whatever the argument; with a recognised flag and a passing
  check it launches exactly the command of that suite and returns its return code; and in
  interactive mode every value it returns is 0, which the choice \<open>0\<close> at the menu gives
  at once. The value \<open>main\<close> returns is the argument of \<open>sys.exit\<close>.
\<close>

theorem main_exit_codes:
  "(length argv > 1
      \<and> py_lower (argv ! 1) \<notin> {''--basic'', ''--advanced'', ''--both'', ''--all''}
      \<longrightarrow> main env argv inputs = (Inr 1, []))
   \<and> (\<not> check_environment env \<longrightarrow> main env argv inputs = (Inr 1, []))
   \<and> (check_environment env \<and> length argv > 1 \<and> py_lower (argv ! 1) = ''--basic''
        \<and> subprocess_run env (basic_cmd env) = Inr rc
      \<longrightarrow> main env argv inputs = (Inr rc, [basic_cmd env]))
   \<and> (check_environment env \<and> length argv > 1 \<and> py_lower (argv ! 1) = ''--advanced''
        \<and> subprocess_run env (advanced_cmd env) = Inr rc
      \<longrightarrow> main env argv inputs = (Inr rc, [advanced_cmd env]))
   \<and> (check_environment env \<and> length argv > 1
        \<and> (py_lower (argv ! 1) = ''--both'' \<or> py_lower (argv ! 1) = ''--all'')
        \<and> subprocess_run env (both_cmd env) = Inr rc
      \<longrightarrow> main env argv inputs = (Inr rc, [both_cmd env]))
   \<and> (check_environment env \<and> length argv \<le> 1 \<and> fst (main env argv inputs) = Inr rc
      \<longrightarrow> rc = 0)
   \<and> (check_environment env \<and> length argv \<le> 1
      \<longrightarrow> main env argv (Line ''0'' # inputs) = (Inr 0, []))"
proof -
  have unknown: "main env argv inputs = (Inr 1, [])"
    if "length argv > 1"
      "py_lower (argv ! 1) \<notin> {''--basic'', ''--advanced'', ''--both'', ''--all''}"
    using that by (simp add: main_def Let_def)
  have failed: "main env argv inputs = (Inr 1, [])" if "\<not> check_environment env"
    using that by (simp add: main_def)
  have basic: "main env argv inputs = (Inr rc, [basic_cmd env])"
    if "check_environment env" "length argv > 1" "py_lower (argv ! 1) = ''--basic''"
      "subprocess_run env (basic_cmd env) = Inr rc"
    using that by (simp add: main_def run_and_return_def)
  have advanced: "main env argv inputs = (Inr rc, [advanced_cmd env])"
    if "check_environment env" "length argv > 1" "py_lower (argv ! 1) = ''--advanced''"
      "subprocess_run env (advanced_cmd env) = Inr rc"
    using that by (simp add: main_def run_and_return_def)
  have both: "main env argv inputs = (Inr rc, [both_cmd env])"
    if "check_environment env" "length argv > 1"
      "py_lower (argv ! 1) = ''--both'' \<or> py_lower (argv ! 1) = ''--all''"
      "subprocess_run env (both_cmd env) = Inr rc"
    using that by (auto simp: main_def run_and_return_def)
  have zero: "rc = 0"
    if "check_environment env" "length argv \<le> 1" "fst (main env argv inputs) = Inr rc"
  proof -
    from that have "fst (interactive env MainChoice inputs []) = Inr rc"
      by (simp add: main_def)
    then obtain tr' where "interactive env MainChoice inputs [] = (Inr rc, tr')"
      by (cases "interactive env MainChoice inputs []") simp
    then show ?thesis by (rule interactive_returns_zero)
  qed
  have leave: "main env argv (Line ''0'' # inputs) = (Inr 0, [])"
    if "check_environment env" "length argv \<le> 1"
    using that by (simp add: main_def interactive_exit_choice del: interactive.simps)
  from unknown failed basic advanced both zero leave show ?thesis by blast
qed

theorem main_exit_codes_witness:
  "main ready_env [''run_tests.py'', ''--fast''] [] = (Inr 1, [])
   \<and> main broken_env [''run_tests.py'', ''--basic''] [] = (Inr 1, [])
   \<and> main ready_env [''run_tests.py'', ''--BASIC''] [] = (Inr 2, [basic_cmd ready_env])
   \<and> main ready_env [''run_tests.py''] [Line ''0''] = (Inr 0, [])"
proof -
  have fast: "py_lower ''--fast'' \<notin> {''--basic'', ''--advanced'', ''--both'', ''--all''}"
    by (simp add: py_lower_def lower_char_keeps)
  have upper: "py_lower ''--BASIC'' = ''--basic''"
    by (simp add: py_lower_def lower_char_def lower_table)
  have run: "subprocess_run ready_env (basic_cmd ready_env) = Inr 2"
    by (simp add: ready_env_def)
  have a: "main ready_env [''run_tests.py'', ''--fast''] [] = (Inr 1, [])"
    using main_exit_codes [of "[''run_tests.py'', ''--fast'']" ready_env "[]" 0] fast
    by simp
  have b: "main broken_env [''run_tests.py'', ''--basic''] [] = (Inr 1, [])"
    using main_exit_codes [of "[''run_tests.py'', ''--basic'']" broken_env "[]" 0]
      check_environment_broken
    by blast
  have c: "main ready_env [''run_tests.py'', ''--BASIC''] [] = (Inr 2, [basic_cmd ready_env])"
    using main_exit_codes [of "[''run_tests.py'', ''--BASIC'']" ready_env "[]" 2]
      check_environment_ready upper run
    by simp
  have d: "main ready_env [''run_tests.py''] [Line ''0''] = (Inr 0, [])"
    using main_exit_codes [of "[''run_tests.py'']" ready_env "[]" 0] check_environment_ready
    by simp
  from a b c d show ?thesis by simp
qed

section \<open>The combined workflow test (tests/test_amazon_complete.py)\<close>

text \<open>
  \<open>test_complete_workflow_basic_to_advanced\<close> drives the browser and asserts on what it
  finds. What the browser gives is the observation of a run: whether the navigation
  succeeded, the page title, whether the search box became clickable (the wait raises
  \<open>TimeoutException\<close> otherwise), the product elements that \<open>smart_product_finder\<close> returns,
  the records that \<open>extract_comprehensive_product_data\<close> returns, and the number of
  successful interactions that \<open>advanced_mouse_interactions_enhanced\<close> returns.
\<close>

datatype outcome = Passed | AssertionError string | TimeoutException

record workflow_observation =
  obs_navigated :: bool
  obs_title :: string
  obs_search_box :: bool
  obs_basic_products :: "product_element list"
  obs_extracted :: "product list"
  obs_interaction_score :: nat

text \<open>
  \<^verbatim>\<open>
  def smart_price_extractor(driver, product_elements):
      prices_found = []
      for product in product_elements:
          price_data = extract_price_from_element(product)
          if price_data:
              prices_found.append(price_data)
      return prices_found
  \<close>
\<close>

definition smart_price_extractor :: "product_element list \<Rightarrow> price_data list" where
  "smart_price_extractor product_elements =
     List.map_filter extract_price_from_element product_elements"

text \<open>
  \<^verbatim>\<open>
  for i, price_data in enumerate(price_data_list):
      if price_data and len(products_data) < 10:
          products_data.append({"index": len(products_data) + 1, "title": f"Product {i+1}",
                                "price": price_data["price"], ...})
  \<close>
\<close>

fun append_price_products :: "nat \<Rightarrow> price_data list \<Rightarrow> product list \<Rightarrow> product list" where
  "append_price_products i [] products_data = products_data"
| "append_price_products i (pd # rest) products_data =
     append_price_products (Suc i) rest
       (if length products_data < 10
        then products_data @
               [\<lparr>title = Val (''Product '' @ str_of_nat (i + 1)),
                 price = Val (real_of_int (price_value pd))\<rparr>]
        else products_data)"

text \<open>
  Phase 2: the extracted records, extended by the prices of the basic products when fewer
  than three records were extracted.
\<close>

definition workflow_products :: "workflow_observation \<Rightarrow> product list" where
  "workflow_products obs =
     (if length (obs_extracted obs) < 3
      then append_price_products 0 (smart_price_extractor (obs_basic_products obs))
             (obs_extracted obs)
      else obs_extracted obs)"

text \<open>
  Phase 4:
  \<^verbatim>\<open>
  basic_success = len(basic_products) >= 1
  advanced_success = len(products_data) >= 1
  interaction_success = interaction_score >= 1
  price_data_success = products_with_prices >= 1 or len(products_data) >= 3
  total_phases_passed = sum([basic_success, advanced_success,
                             interaction_success, price_data_success])
  assert total_phases_passed >= 3, f"Insufficient workflow success: ..."
  \<close>
  where \<open>products_with_prices = sum(1 for p in products_data if p.get("price"))\<close>.
\<close>

definition products_with_prices :: "product list \<Rightarrow> nat" where
  "products_with_prices products_data = length (filter (\<lambda>p. priced p \<noteq> None) products_data)"

definition phase_flags :: "nat \<Rightarrow> product list \<Rightarrow> nat \<Rightarrow> bool \<times> bool \<times> bool \<times> bool" where
  "phase_flags n_basic_products products_data interaction_score =
     (let basic_success = (n_basic_products \<ge> 1);
          advanced_success = (length products_data \<ge> 1);
          interaction_success = (interaction_score \<ge> 1);
          price_data_success =
            (products_with_prices products_data \<ge> 1 \<or> length products_data \<ge> 3)
      in (basic_success, advanced_success, interaction_success, price_data_success))"

text \<open>\<open>sum\<close> of a list of booleans counts the true ones.\<close>

definition total_phases_passed :: "bool \<times> bool \<times> bool \<times> bool \<Rightarrow> nat" where
  "total_phases_passed flags =
     (case flags of (basic_success, advanced_success, interaction_success, price_data_success) \<Rightarrow>
        sum_list (map of_bool
          [basic_success, advanced_success, interaction_success, price_data_success]))"

definition phase4_assert :: "bool \<times> bool \<times> bool \<times> bool \<Rightarrow> outcome" where
  "phase4_assert flags =
     (if total_phases_passed flags \<ge> 3 then Passed
      else AssertionError (''Insufficient workflow success: ''
             @ str_of_nat (total_phases_passed flags) @ ''/4 phases passed (minimum: 3)''))"

text \<open>\<open>"Amazon" in driver.title or "amazon" in driver.title.lower()\<close>\<close>

definition title_mentions_amazon :: "string \<Rightarrow> bool" where
  "title_mentions_amazon t \<longleftrightarrow>
     str_contains ''Amazon'' t \<or> str_contains ''amazon'' (py_lower t)"

text \<open>The four flags that Phase 4 computes in a run.\<close>

definition workflow_flags :: "workflow_observation \<Rightarrow> bool \<times> bool \<times> bool \<times> bool" where
  "workflow_flags obs =
     phase_flags (length (obs_basic_products obs)) (workflow_products obs)
       (obs_interaction_score obs)"

text \<open>
  The test, with its assertions in the order of the source: the navigation (line 3066),
  the title (3071), the wait for the search box (3073), the basic search (3086), the
  extraction (3116), the interactions (3137) and the summary of Phase 4 (3159).
\<close>

definition test_complete_workflow_basic_to_advanced :: "workflow_observation \<Rightarrow> outcome" where
  "test_complete_workflow_basic_to_advanced obs =
     (if \<not> obs_navigated obs then AssertionError ''Failed to navigate to Amazon homepage''
      else if \<not> title_mentions_amazon (obs_title obs) then AssertionError []
      else if \<not> obs_search_box obs then TimeoutException
      else if \<not> length (obs_basic_products obs) \<ge> 1 then
        AssertionError (''Basic search failed - found ''
          @ str_of_nat (length (obs_basic_products obs)) @ '' products'')
      else if \<not> length (workflow_products obs) \<ge> 1 then
        AssertionError (''Advanced data extraction failed - found ''
          @ str_of_nat (length (workflow_products obs)) @ '' products (minimum: 1)'')
      else if \<not> obs_interaction_score obs \<ge> 1 then
        AssertionError (''Mouse interactions failed - got ''
          @ str_of_nat (obs_interaction_score obs) @ '' (minimum: 1)'')
      else phase4_assert (workflow_flags obs))"

text \<open>
  A run in which the search and the extraction succeed and no interaction does, and the
  same run with two successful interactions.
\<close>

definition no_interaction_run :: workflow_observation where
  "no_interaction_run =
     \<lparr>obs_navigated = True,
      obs_title = ''Online Shopping site in India - Amazon.in'',
      obs_search_box = True,
      obs_basic_products = [product_with_text ''1,299''],
      obs_extracted =
        [\<lparr>title = Val ''Smartphone 128 GB Midnight Black'', price = Val 1299\<rparr>,
         \<lparr>title = Val ''Smartphone 256 GB Ocean Blue'', price = PyNone\<rparr>,
         \<lparr>title = PyNone, price = Val 15999\<rparr>],
      obs_interaction_score = 0\<rparr>"

definition two_interactions_run :: workflow_observation where
  "two_interactions_run = no_interaction_run\<lparr>obs_interaction_score := 2\<rparr>"

section \<open>Facts about the combined workflow test\<close>

lemma phase4_assert_three_of_four:
  "phase4_assert (a, b, c, d) = Passed
     \<longleftrightarrow> (a \<and> b \<and> c) \<or> (a \<and> b \<and> d) \<or> (a \<and> c \<and> d) \<or> (b \<and> c \<and> d)"
  by (cases a; cases b; cases c; cases d)
     (simp_all add: phase4_assert_def total_phases_passed_def)

lemma products_with_prices_pos:
  "products_with_prices products_data \<ge> 1
     \<longleftrightarrow> (\<exists>p \<in> set products_data. priced p \<noteq> None)"
proof -
  have "length (filter (\<lambda>p. priced p \<noteq> None) products_data) \<ge> 1
      \<longleftrightarrow> filter (\<lambda>p. priced p \<noteq> None) products_data \<noteq> []"
    by (cases "filter (\<lambda>p. priced p \<noteq> None) products_data") simp_all
  then show ?thesis
    unfolding products_with_prices_def by (simp add: filter_empty_conv)
qed

lemma phase_flags_eq:
  "phase_flags n_basic_products products_data score
     = (n_basic_products \<ge> 1, length products_data \<ge> 1, score \<ge> 1,
        (\<exists>p \<in> set products_data. priced p \<noteq> None) \<or> length products_data \<ge> 3)"
  unfolding phase_flags_def Let_def products_with_prices_pos ..

text \<open>Once the assertions of the first three phases hold, the Phase 4 assertion holds.\<close>

lemma phase4_holds_when_reached:
  "n_basic_products \<ge> 1 \<Longrightarrow> length products_data \<ge> 1 \<Longrightarrow> score \<ge> 1 \<Longrightarrow>
     phase4_assert (phase_flags n_basic_products products_data score) = Passed"
  by (simp add: phase_flags_eq phase4_assert_three_of_four)

lemma test_complete_workflow_passes_iff:
  "test_complete_workflow_basic_to_advanced obs = Passed
     \<longleftrightarrow> obs_navigated obs \<and> title_mentions_amazon (obs_title obs) \<and> obs_search_box obs
         \<and> length (obs_basic_products obs) \<ge> 1 \<and> length (workflow_products obs) \<ge> 1
         \<and> obs_interaction_score obs \<ge> 1"
  using phase4_holds_when_reached
    [of "length (obs_basic_products obs)" "workflow_products obs" "obs_interaction_score obs"]
  by (auto simp: test_complete_workflow_basic_to_advanced_def workflow_flags_def)

lemma title_of_example: "title_mentions_amazon ''Online Shopping site in India - Amazon.in''"
  by (simp add: title_mentions_amazon_def)

lemma workflow_products_no_interaction_run:
  "workflow_products no_interaction_run = obs_extracted no_interaction_run"
  by (simp add: workflow_products_def no_interaction_run_def)

text \<open>The extension of Phase 2 on a run that extracted no record.\<close>

lemma workflow_products_fallback_example:
  "workflow_products (no_interaction_run\<lparr>obs_extracted := []\<rparr>)
     = [\<lparr>title = Val ''Product 1'', price = Val 1299\<rparr>]"
proof -
  have "extract_price_from_element (product_with_text ''1,299'')
     = Some \<lparr>price_value = 1299, original_text = ''1,299'', selector_used = ''.a-price-whole''\<rparr>"
    by (simp add: extract_price_from_element_def price_selectors_def product_with_text_def
        price_from_price_element_def price_text_of_def py_strip_def is_space_def
        parse_price_text_def remove_commas_def re_search_digits_commas_def is_digit_def
        py_int_def digit_value_def)
  then show ?thesis
    by (simp add: workflow_products_def no_interaction_run_def smart_price_extractor_def
        List.map_filter_simps str_of_nat.simps)
qed

section \<open>Claim on the combined workflow test\<close>

text \<open>
  C6 (as the claim states it, refuted): the claim has the flags (true, true, false, true)
  pass. A run with these flags has no successful interaction, and the test fails on its
  Phase 3 assertion before Phase 4 is reached.
\<close>

theorem workflow_fails_without_interaction:
  "workflow_flags no_interaction_run = (True, True, False, True)
   \<and> test_complete_workflow_basic_to_advanced no_interaction_run
       = AssertionError ''Mouse interactions failed - got 0 (minimum: 1)''"
proof -
  have flags: "workflow_flags no_interaction_run = (True, True, False, True)"
    unfolding workflow_flags_def phase_flags_eq workflow_products_no_interaction_run
    by (simp add: no_interaction_run_def priced_def)
  have run: "test_complete_workflow_basic_to_advanced no_interaction_run
       = AssertionError ''Mouse interactions failed - got 0 (minimum: 1)''"
    unfolding test_complete_workflow_basic_to_advanced_def workflow_products_no_interaction_run
    by (simp add: no_interaction_run_def title_of_example str_of_nat.simps)
  from flags run show ?thesis by simp
qed

text \<open>
  C6 (amended): the test passes exactly when the assertions of its phases hold: the
  navigation and the title, the search box, at least one basic product, at least one
  extracted product and at least one successful interaction. The Phase 4 assertion, as a
  function of the four flags (the fourth: at least one priced product or at least three
  extracted products), holds exactly when at least three of them are true, so it holds for
  (true, true, false, true) and not for (true, false, false, true); but it is reached only
  with the first three flags true, where it always holds. A run with the flags
  (true, true, false, true) does not pass, and no run has the flags
  (true, false, false, true).
\<close>

theorem workflow_test_passes_iff:
  "(test_complete_workflow_basic_to_advanced obs = Passed
      \<longleftrightarrow> obs_navigated obs \<and> title_mentions_amazon (obs_title obs) \<and> obs_search_box obs
          \<and> length (obs_basic_products obs) \<ge> 1 \<and> length (workflow_products obs) \<ge> 1
          \<and> obs_interaction_score obs \<ge> 1)
   \<and> workflow_flags obs
       = (length (obs_basic_products obs) \<ge> 1, length (workflow_products obs) \<ge> 1,
          obs_interaction_score obs \<ge> 1,
          (\<exists>p \<in> set (workflow_products obs). priced p \<noteq> None)
           \<or> length (workflow_products obs) \<ge> 3)
   \<and> (phase4_assert (basic_success, advanced_success, interaction_success, price_data_success)
         = Passed
       \<longleftrightarrow> (basic_success \<and> advanced_success \<and> interaction_success)
           \<or> (basic_success \<and> advanced_success \<and> price_data_success)
           \<or> (basic_success \<and> interaction_success \<and> price_data_success)
           \<or> (advanced_success \<and> interaction_success \<and> price_data_success))
   \<and> phase4_assert (True, True, False, True) = Passed
   \<and> phase4_assert (True, False, False, True) \<noteq> Passed
   \<and> (workflow_flags obs = (True, True, False, True)
        \<longrightarrow> test_complete_workflow_basic_to_advanced obs \<noteq> Passed)
   \<and> workflow_flags obs \<noteq> (True, False, False, True)"
proof -
  have flags: "workflow_flags obs
       = (length (obs_basic_products obs) \<ge> 1, length (workflow_products obs) \<ge> 1,
          obs_interaction_score obs \<ge> 1,
          (\<exists>p \<in> set (workflow_products obs). priced p \<noteq> None)
           \<or> length (workflow_products obs) \<ge> 3)"
    unfolding workflow_flags_def by (rule phase_flags_eq)
  have fails: "test_complete_workflow_basic_to_advanced obs \<noteq> Passed"
    if "workflow_flags obs = (True, True, False, True)"
    using that unfolding flags test_complete_workflow_passes_iff by simp
  have never: "workflow_flags obs \<noteq> (True, False, False, True)"
  proof
    assume f: "workflow_flags obs = (True, False, False, True)"
    then have "\<not> length (workflow_products obs) \<ge> 1" unfolding flags by simp
    then have empty: "workflow_products obs = []"
      by (cases "workflow_products obs") simp_all
    from f show False unfolding flags empty by simp
  qed
  have yes: "phase4_assert (True, True, False, True) = Passed"
    by (simp add: phase4_assert_three_of_four)
  have no: "phase4_assert (True, False, False, True) \<noteq> Passed"
    by (simp add: phase4_assert_three_of_four)
  from test_complete_workflow_passes_iff [of obs] flags
    phase4_assert_three_of_four
      [of basic_success advanced_success interaction_success price_data_success]
    yes no fails never
  show ?thesis by blast
qed

theorem workflow_test_passes_iff_witness:
  "test_complete_workflow_basic_to_advanced two_interactions_run = Passed
   \<and> workflow_flags two_interactions_run = (True, True, True, True)"
proof -
  have products: "workflow_products two_interactions_run = obs_extracted no_interaction_run"
    by (simp add: workflow_products_def two_interactions_run_def no_interaction_run_def)
  have holds: "obs_navigated two_interactions_run
      \<and> title_mentions_amazon (obs_title two_interactions_run)
      \<and> obs_search_box two_interactions_run
      \<and> length (obs_basic_products two_interactions_run) \<ge> 1
      \<and> length (workflow_products two_interactions_run) \<ge> 1
      \<and> obs_interaction_score two_interactions_run \<ge> 1"
    unfolding products
    by (simp add: two_interactions_run_def no_interaction_run_def title_of_example)
  note at_run = workflow_test_passes_iff [of two_interactions_run True True True True]
  from at_run holds have passed: "test_complete_workflow_basic_to_advanced two_interactions_run = Passed"
    by blast
  from at_run have "workflow_flags two_interactions_run
       = (length (obs_basic_products two_interactions_run) \<ge> 1,
          length (workflow_products two_interactions_run) \<ge> 1,
          obs_interaction_score two_interactions_run \<ge> 1,
          (\<exists>p \<in> set (workflow_products two_interactions_run). priced p \<noteq> None)
           \<or> length (workflow_products two_interactions_run) \<ge> 3)"
    by blast
  then have flags: "workflow_flags two_interactions_run = (True, True, True, True)"
    unfolding products
    by (simp add: two_interactions_run_def no_interaction_run_def)
  from passed flags show ?thesis by simp
qed

end
